theory Spec2Isabelle
  imports Main "HOL-Library.AList"
begin

section \<open>Python values, exceptions and the outside world\<close>

text \<open>
  The wrapper of \<^verbatim>\<open>tor_requests.py\<close> (the same class is repeated in \<^verbatim>\<open>main.py\<close>)
  owns no algorithm of its own: it calls the \<^verbatim>\<open>requests\<close> library, reads the JSON body
  of the answer, prints, and keeps four fields. The model makes each of these explicit.

  Exceptions are values. The classes are the ones the source distinguishes in its
  \<^verbatim>\<open>except\<close> clauses (\<^verbatim>\<open>requests.RequestException\<close> and its subclasses;
  \<^verbatim>\<open>socket.error\<close>, that is an \<^verbatim>\<open>OSError\<close> that is not a \<^verbatim>\<open>RequestException\<close>),
  the \<^verbatim>\<open>KeyError\<close> of a failed dictionary lookup, the plain \<^verbatim>\<open>Exception\<close> the module
  raises itself, the \<^verbatim>\<open>TypeError\<close> of a call whose arguments do not fit the parameters, and
  any other exception. Each carries its message.
\<close>

datatype exn =
    RequestException string
  | SocketError string
  | KeyError string
  | Exception string
  | TypeError string
  | OtherError string

text \<open>
  The value of the \<^verbatim>\<open>ip\<close> member of the endpoint's JSON object: a string, or JSON
  \<^verbatim>\<open>null\<close> (Python's \<^verbatim>\<open>None\<close>, which is also what \<^verbatim>\<open>_get_direct_ip\<close> returns after a
  failure). \<open>truthy\<close> is Python's truth test on such a value: \<^verbatim>\<open>None\<close> and the empty
  string are false.
\<close>

datatype ipval = PyNone | PyStr string

fun truthy :: "ipval \<Rightarrow> bool" where
  "truthy PyNone = False"
| "truthy (PyStr s) = (s \<noteq> [])"

text \<open>
  A \<^verbatim>\<open>proxies\<close> dictionary is an association list in insertion order; the arguments of
  a call to \<^verbatim>\<open>requests\<close> are \<^verbatim>\<open>None\<close>, integers, strings, such dictionaries, or caller
  data the wrapper never inspects.
\<close>

type_synonym proxy_settings = "(string \<times> string) list"

datatype 'a arg = ANone | AInt int | AStr string | ADict proxy_settings | AOther 'a

text \<open>
  One call \<^verbatim>\<open>requests.<method>(*args, **kwargs)\<close>: the name of the function, its
  positional and its keyword arguments. The keyword arguments are a Python dictionary: an association list with distinct keys, updated by \<open>AList.update\<close>
  (replace in place, or append).
\<close>

record 'a call =
  http_method :: string
  args :: "'a arg list"
  kwargs :: "(string \<times> 'a arg) list"

text \<open>
  The world outside the program: what \<^verbatim>\<open>requests\<close> answers to a call, which may depend
  on every call made before it, and what \<^verbatim>\<open>response.json()\<close> yields for a response.
  Both may raise. Nothing is assumed about either.
\<close>

record ('a, 'r) world =
  requests :: "'a call list \<Rightarrow> 'a call \<Rightarrow> exn + 'r"
  json :: "'r \<Rightarrow> exn + (string \<times> ipval) list"

text \<open>
  The effects of the program: the calls made to \<^verbatim>\<open>requests\<close>, oldest first, and the
  lines printed.
\<close>

record 'a io =
  calls :: "'a call list"
  stdout :: "string list"

definition requests_call ::
  "('a, 'r) world \<Rightarrow> 'a call \<Rightarrow> 'a io \<Rightarrow> (exn + 'r) \<times> 'a io" where
  "requests_call w rq s = (requests w (calls s) rq, s\<lparr>calls := calls s @ [rq]\<rparr>)"

definition py_print :: "string \<Rightarrow> 'a io \<Rightarrow> 'a io" where
  "py_print line s = s\<lparr>stdout := stdout s @ [line]\<rparr>"

subsection \<open>Formatting a port number\<close>

text \<open>
  \<^verbatim>\<open>f'{port}'\<close> on a Python \<^verbatim>\<open>int\<close>: the decimal digits, with a leading minus sign for
  a negative number.
\<close>

definition digit_char :: "nat \<Rightarrow> char" where
  "digit_char d = ''0123456789'' ! d"

fun str_nat :: "nat \<Rightarrow> string" where
  "str_nat n = (if n < 10 then [digit_char n] else str_nat (n div 10) @ [digit_char (n mod 10)])"

declare str_nat.simps [simp del]

definition str_int :: "int \<Rightarrow> string" where
  "str_int i = (if i < 0 then CHR ''-'' # str_nat (nat (- i)) else str_nat (nat i))"

section \<open>The class \<^verbatim>\<open>TorRequestsWrapper\<close>\<close>

record client =
  tor_ports :: "int list"
  timeout :: int
  ip_check_url :: string
  proxies :: "proxy_settings option"

text \<open>
  \<^verbatim>\<open>__init__(self, tor_ports=[9150, 9050], timeout=10)\<close>. The fields are values: the
  port list of a client is the list it was constructed with, and the default list is the
  constant the source writes.
\<close>

definition init :: "int list \<Rightarrow> int \<Rightarrow> client" where
  "init ports t =
     \<lparr>tor_ports = ports, timeout = t,
      ip_check_url = ''https://api.ipify.org?format=json'', proxies = None\<rparr>"

text \<open>\<^verbatim>\<open>_create_proxies(self, port)\<close>\<close>

definition create_proxies :: "int \<Rightarrow> proxy_settings" where
  "create_proxies port =
     [(''http'', ''socks5h://127.0.0.1:'' @ str_int port),
      (''https'', ''socks5h://127.0.0.1:'' @ str_int port)]"

text \<open>
  \<^verbatim>\<open>response.json()['ip']\<close>: a failure of \<^verbatim>\<open>json()\<close> is the world's; a decoded object
  without the key raises \<^verbatim>\<open>KeyError('ip')\<close>.
\<close>

definition json_ip :: "('a, 'r) world \<Rightarrow> 'r \<Rightarrow> exn + ipval" where
  "json_ip w r =
     (case json w r of
        Inl e \<Rightarrow> Inl e
      | Inr obj \<Rightarrow> (case map_of obj ''ip'' of None \<Rightarrow> Inl (KeyError ''ip'') | Some v \<Rightarrow> Inr v))"

text \<open>
  The two statements both probes share:
  \<^verbatim>\<open>response = requests.get(...); return response.json()['ip']\<close>.
\<close>

definition fetch_ip ::
  "('a, 'r) world \<Rightarrow> 'a call \<Rightarrow> 'a io \<Rightarrow> (exn + ipval) \<times> 'a io" where
  "fetch_ip w rq s =
     (case requests_call w rq s of
        (Inl e, s') \<Rightarrow> (Inl e, s')
      | (Inr r, s') \<Rightarrow> (json_ip w r, s'))"

text \<open>The call \<^verbatim>\<open>requests.get(self.ip_check_url, timeout=self.timeout)\<close>.\<close>

definition direct_call :: "client \<Rightarrow> 'a call" where
  "direct_call c =
     \<lparr>http_method = ''get'', args = [AStr (ip_check_url c)],
      kwargs = [(''timeout'', AInt (timeout c))]\<rparr>"

text \<open>
  \<^verbatim>\<open>_get_direct_ip(self)\<close>: only \<^verbatim>\<open>requests.RequestException\<close> is caught (printed, and
  \<^verbatim>\<open>None\<close> returned); every other exception leaves the method.
\<close>

definition get_direct_ip ::
  "('a, 'r) world \<Rightarrow> client \<Rightarrow> 'a io \<Rightarrow> (exn + ipval) \<times> 'a io" where
  "get_direct_ip w c s =
     (case fetch_ip w (direct_call c) s of
        (Inl (RequestException m), s') \<Rightarrow>
          (Inr PyNone, py_print (''Error getting direct IP: '' @ m) s')
      | (Inl e, s') \<Rightarrow> (Inl e, s')
      | (Inr ip, s') \<Rightarrow> (Inr ip, s'))"

text \<open>
  The call \<^verbatim>\<open>requests.get(self.ip_check_url, proxies=self.proxies, timeout=self.timeout)\<close>.
\<close>

definition proxies_arg :: "proxy_settings option \<Rightarrow> 'a arg" where
  "proxies_arg p = (case p of None \<Rightarrow> ANone | Some d \<Rightarrow> ADict d)"

definition tor_call :: "client \<Rightarrow> 'a call" where
  "tor_call c =
     \<lparr>http_method = ''get'', args = [AStr (ip_check_url c)],
      kwargs = [(''proxies'', proxies_arg (proxies c)), (''timeout'', AInt (timeout c))]\<rparr>"

text \<open>
  \<^verbatim>\<open>_get_tor_ip(self)\<close>: the handler re-raises the \<^verbatim>\<open>RequestException\<close> it catches, so
  every exception leaves the method.
\<close>

definition get_tor_ip ::
  "('a, 'r) world \<Rightarrow> client \<Rightarrow> 'a io \<Rightarrow> (exn + ipval) \<times> 'a io" where
  "get_tor_ip w c s =
     (case fetch_ip w (tor_call c) s of
        (Inl (RequestException m), s') \<Rightarrow> (Inl (RequestException m), s')
      | (Inl e, s') \<Rightarrow> (Inl e, s')
      | (Inr ip, s') \<Rightarrow> (Inr ip, s'))"

text \<open>
  The \<^verbatim>\<open>for port in self.tor_ports\<close> loop of \<^verbatim>\<open>check_tor_connection\<close>, with the two
  statements after it as the case of no port left. \<open>direct_ip\<close> is the local variable
  of that name. The result is the returned Boolean or the exception that leaves the
  method, with the client and the effects as they are at that moment.
\<close>

fun check_ports ::
  "('a, 'r) world \<Rightarrow> ipval \<Rightarrow> int list \<Rightarrow> client \<Rightarrow> 'a io \<Rightarrow> (exn + bool) \<times> client \<times> 'a io" where
  "check_ports w direct_ip [] c s =
     (Inr False, c,
      py_print ''Tor connection failed. Unable to connect through any configured port.'' s)"
| "check_ports w direct_ip (port # ports) c s =
     (let c' = c\<lparr>proxies := Some (create_proxies port)\<rparr> in
      case get_tor_ip w c' s of
        (Inr tor_ip, s') \<Rightarrow>
          if truthy tor_ip \<and> tor_ip \<noteq> direct_ip
          then (Inr True, c',
                py_print (''Connected to Tor! Tor IP: '' @ (case tor_ip of PyStr ip \<Rightarrow> ip | PyNone \<Rightarrow> ''None'')) s')
          else check_ports w direct_ip ports c' s'
      | (Inl (RequestException e), s') \<Rightarrow>
          check_ports w direct_ip ports c'
            (py_print (''Error checking Tor connection on port '' @ str_int port @ '': '' @ e) s')
      | (Inl (SocketError e), s') \<Rightarrow>
          check_ports w direct_ip ports c'
            (py_print (''Socket error on port '' @ str_int port @ '': '' @ e) s')
      | (Inl e, s') \<Rightarrow> (Inl e, c', s'))"

text \<open>\<^verbatim>\<open>check_tor_connection(self)\<close>\<close>

definition check_tor_connection ::
  "('a, 'r) world \<Rightarrow> client \<Rightarrow> 'a io \<Rightarrow> (exn + bool) \<times> client \<times> 'a io" where
  "check_tor_connection w c s =
     (case get_direct_ip w c s of
        (Inl e, s1) \<Rightarrow> (Inl e, c, s1)
      | (Inr direct_ip, s1) \<Rightarrow>
          check_ports w direct_ip (tor_ports c) c
            (if \<not> truthy direct_ip
             then py_print ''Warning: Unable to get direct IP. Continuing with Tor check...'' s1
             else s1))"

text \<open>
  \<^verbatim>\<open>_tor_request(self, method, *args, **kwargs)\<close>. \<^verbatim>\<open>not self.proxies\<close> holds for
  \<^verbatim>\<open>None\<close> and for an empty dictionary. \<^verbatim>\<open>getattr(requests, method)\<close> and the call are
  the world's. The dictionary \<^verbatim>\<open>kwargs\<close> of this method never has the keys \<^verbatim>\<open>self\<close> and
  \<^verbatim>\<open>method\<close>: Python binds these names to the method's own parameters.
\<close>

definition client_tor_request ::
  "('a, 'r) world \<Rightarrow> client \<Rightarrow> string \<Rightarrow> 'a arg list \<Rightarrow> (string \<times> 'a arg) list \<Rightarrow> 'a io
     \<Rightarrow> (exn + 'r) \<times> client \<times> 'a io" where
  "client_tor_request w c meth as kws s =
     (if proxies c = None \<or> proxies c = Some []
      then (Inl (Exception ''Tor proxy not configured. Run check_tor_connection() first.''), c, s)
      else
        (case requests_call w
                \<lparr>http_method = meth, args = as,
                 kwargs = AList.update ''proxies'' (proxies_arg (proxies c)) kws\<rparr> s of
           (r, s') \<Rightarrow> (r, c, s')))"

text \<open>
  A keyword argument that names a parameter the call has already bound by position makes
  Python raise \<^verbatim>\<open>TypeError: f() got multiple values for argument 'a'\<close> before the body
  of \<open>f\<close> runs (\<open>f\<close> is the qualified name of the function, as Python 3.10 and later
  print it).
\<close>

definition multiple_values :: "string \<Rightarrow> string \<Rightarrow> exn" where
  "multiple_values f a =
     TypeError (f @ ''() got multiple values for argument '' @ [CHR 0x27] @ a @ [CHR 0x27])"

text \<open>
  \<^verbatim>\<open>get(self, *args, **kwargs)\<close> and its three siblings, each with the one statement
  \<^verbatim>\<open>return self._tor_request('<verb>', *args, **kwargs)\<close>. A caller's keyword \<^verbatim>\<open>self\<close>
  collides with the bound instance when the operation itself is called; a keyword
  \<^verbatim>\<open>method\<close> collides with the verb name passed by position when \<^verbatim>\<open>_tor_request\<close> is
  called. Either way the \<^verbatim>\<open>TypeError\<close> is raised before the guard of \<^verbatim>\<open>_tor_request\<close>
  runs, and no request is made.
\<close>

definition get ::
  "('a, 'r) world \<Rightarrow> client \<Rightarrow> 'a arg list \<Rightarrow> (string \<times> 'a arg) list \<Rightarrow> 'a io
     \<Rightarrow> (exn + 'r) \<times> client \<times> 'a io" where
  "get w c as kws s =
     (if ''self'' \<in> set (map fst kws)
      then (Inl (multiple_values ''TorRequestsWrapper.get'' ''self''), c, s)
      else if ''method'' \<in> set (map fst kws)
      then (Inl (multiple_values ''TorRequestsWrapper._tor_request'' ''method''), c, s)
      else client_tor_request w c ''get'' as kws s)"

definition post ::
  "('a, 'r) world \<Rightarrow> client \<Rightarrow> 'a arg list \<Rightarrow> (string \<times> 'a arg) list \<Rightarrow> 'a io
     \<Rightarrow> (exn + 'r) \<times> client \<times> 'a io" where
  "post w c as kws s =
     (if ''self'' \<in> set (map fst kws)
      then (Inl (multiple_values ''TorRequestsWrapper.post'' ''self''), c, s)
      else if ''method'' \<in> set (map fst kws)
      then (Inl (multiple_values ''TorRequestsWrapper._tor_request'' ''method''), c, s)
      else client_tor_request w c ''post'' as kws s)"

definition put ::
  "('a, 'r) world \<Rightarrow> client \<Rightarrow> 'a arg list \<Rightarrow> (string \<times> 'a arg) list \<Rightarrow> 'a io
     \<Rightarrow> (exn + 'r) \<times> client \<times> 'a io" where
  "put w c as kws s =
     (if ''self'' \<in> set (map fst kws)
      then (Inl (multiple_values ''TorRequestsWrapper.put'' ''self''), c, s)
      else if ''method'' \<in> set (map fst kws)
      then (Inl (multiple_values ''TorRequestsWrapper._tor_request'' ''method''), c, s)
      else client_tor_request w c ''put'' as kws s)"

definition delete ::
  "('a, 'r) world \<Rightarrow> client \<Rightarrow> 'a arg list \<Rightarrow> (string \<times> 'a arg) list \<Rightarrow> 'a io
     \<Rightarrow> (exn + 'r) \<times> client \<times> 'a io" where
  "delete w c as kws s =
     (if ''self'' \<in> set (map fst kws)
      then (Inl (multiple_values ''TorRequestsWrapper.delete'' ''self''), c, s)
      else if ''method'' \<in> set (map fst kws)
      then (Inl (multiple_values ''TorRequestsWrapper._tor_request'' ''method''), c, s)
      else client_tor_request w c ''delete'' as kws s)"

section \<open>The decorator \<^verbatim>\<open>tor_request\<close>\<close>

text \<open>
  \<^verbatim>\<open>wrapper(*args, **kwargs)\<close> for a decorated function \<open>func\<close>. The function is
  any state transformer: it receives the client, the arguments and the effects so far,
  and yields its result (or exception) and the effects after it.
\<close>

definition tor_request ::
  "('a, 'r) world
     \<Rightarrow> (client \<Rightarrow> 'a arg list \<Rightarrow> (string \<times> 'a arg) list \<Rightarrow> 'a io \<Rightarrow> (exn + 'b) \<times> 'a io)
     \<Rightarrow> 'a arg list \<Rightarrow> (string \<times> 'a arg) list \<Rightarrow> 'a io \<Rightarrow> (exn + 'b) \<times> 'a io" where
  "tor_request w func as kws s =
     (case check_tor_connection w (init [9150, 9050] 10) s of
        (Inl e, tor, s') \<Rightarrow> (Inl e, s')
      | (Inr ok, tor, s') \<Rightarrow>
          if \<not> ok
          then (Inl (Exception
                  ''Tor connection failed. Make sure Tor is running and configured correctly.''), s')
          else func tor as kws s')"

section \<open>Sequences of operations on one client\<close>

text \<open>
  The public operations of the class. A caller may issue them in any order and may catch
  what they raise, so a sequence of operations runs on whatever an operation raised or
  returned: \<open>step\<close> keeps the client and the effects and drops the outcome.
\<close>

datatype 'a op =
    CheckTorConnection
  | Get "'a arg list" "(string \<times> 'a arg) list"
  | Post "'a arg list" "(string \<times> 'a arg) list"
  | Put "'a arg list" "(string \<times> 'a arg) list"
  | Delete "'a arg list" "(string \<times> 'a arg) list"

fun step :: "('a, 'r) world \<Rightarrow> client \<times> 'a io \<Rightarrow> 'a op \<Rightarrow> client \<times> 'a io" where
  "step w (c, s) CheckTorConnection = snd (check_tor_connection w c s)"
| "step w (c, s) (Get as kws) = snd (get w c as kws s)"
| "step w (c, s) (Post as kws) = snd (post w c as kws s)"
| "step w (c, s) (Put as kws) = snd (put w c as kws s)"
| "step w (c, s) (Delete as kws) = snd (delete w c as kws s)"

definition run :: "('a, 'r) world \<Rightarrow> 'a op list \<Rightarrow> client \<times> 'a io \<Rightarrow> client \<times> 'a io" where
  "run w ops cs = foldl (step w) cs ops"

section \<open>What the world answers to a probe\<close>

text \<open>
  \<open>ip_answer w h rq\<close> is what the statements
  \<^verbatim>\<open>response = requests.get(...); response.json()['ip']\<close> evaluate to for the request
  \<open>rq\<close> when the calls \<open>h\<close> have been made before it: the world's exception, the
  \<^verbatim>\<open>KeyError\<close> of a body without the member, or the member's value.
\<close>

definition ip_answer :: "('a, 'r) world \<Rightarrow> 'a call list \<Rightarrow> 'a call \<Rightarrow> exn + ipval" where
  "ip_answer w h rq = (case requests w h rq of Inl e \<Rightarrow> Inl e | Inr r \<Rightarrow> json_ip w r)"

text \<open>The request the loop sends for a candidate port.\<close>

definition probe_call :: "client \<Rightarrow> int \<Rightarrow> 'a call" where
  "probe_call c port = tor_call (c\<lparr>proxies := Some (create_proxies port)\<rparr>)"

text \<open>
  The exceptions the loop's two \<^verbatim>\<open>except\<close> clauses name, and the answers after which the
  loop goes on to the next port: such an exception, or an IP that is empty, \<^verbatim>\<open>None\<close> or
  equal to the direct IP.
\<close>

fun caught :: "exn \<Rightarrow> bool" where
  "caught (RequestException m) = True"
| "caught (SocketError m) = True"
| "caught e = False"

fun port_rejected :: "ipval \<Rightarrow> exn + ipval \<Rightarrow> bool" where
  "port_rejected direct_ip (Inl e) = caught e"
| "port_rejected direct_ip (Inr tor_ip) = (\<not> (truthy tor_ip \<and> tor_ip \<noteq> direct_ip))"

text \<open>
  Every port of a list, probed in turn after the calls \<open>h\<close>, gets an answer after which
  the loop goes on.
\<close>

fun all_rejected ::
  "('a, 'r) world \<Rightarrow> client \<Rightarrow> ipval \<Rightarrow> 'a call list \<Rightarrow> int list \<Rightarrow> bool" where
  "all_rejected w c direct_ip h [] = True"
| "all_rejected w c direct_ip h (port # ports) =
     (port_rejected direct_ip (ip_answer w h (probe_call c port)) \<and>
      all_rejected w c direct_ip (h @ [probe_call c port]) ports)"

section \<open>Mock worlds\<close>

text \<open>
  A mock IP-check endpoint: \<open>direct\<close> is the answer to a request without a proxy
  dictionary, \<open>via d\<close> the answer to a request through the proxy dictionary \<open>d\<close>. A
  response is its decoded JSON object.
\<close>

definition mock_world ::
  "(exn + (string \<times> ipval) list) \<Rightarrow> (proxy_settings \<Rightarrow> exn + (string \<times> ipval) list)
     \<Rightarrow> (unit, (string \<times> ipval) list) world" where
  "mock_world direct via =
     \<lparr>requests = (\<lambda>h rq. case map_of (kwargs rq) ''proxies'' of
                                Some (ADict d) \<Rightarrow> via d
                              | _ \<Rightarrow> direct),
      json = Inr\<rparr>"

definition ip_body :: "string \<Rightarrow> (string \<times> ipval) list" where
  "ip_body ip = [(''ip'', PyStr ip)]"

definition io0 :: "unit io" where
  "io0 = \<lparr>calls = [], stdout = []\<rparr>"

text \<open>Every request, direct or proxied, sees the same address.\<close>

definition same_ip_world :: "(unit, (string \<times> ipval) list) world" where
  "same_ip_world =
     mock_world (Inr (ip_body ''203.0.113.7'')) (\<lambda>d. Inr (ip_body ''203.0.113.7''))"

text \<open>Nothing listens on port 9150; port 9050 is a Tor proxy.\<close>

definition tor_on_9050 :: "(unit, (string \<times> ipval) list) world" where
  "tor_on_9050 =
     mock_world (Inr (ip_body ''203.0.113.7''))
       (\<lambda>d. if d = create_proxies 9050 then Inr (ip_body ''185.220.101.4'')
            else Inl (RequestException ''connection refused''))"

text \<open>Port 9150 is a proxy that does not change the address; port 9050 is a Tor proxy.\<close>

definition plain_proxy_on_9150 :: "(unit, (string \<times> ipval) list) world" where
  "plain_proxy_on_9150 =
     mock_world (Inr (ip_body ''203.0.113.7''))
       (\<lambda>d. if d = create_proxies 9150 then Inr (ip_body ''203.0.113.7'')
            else Inr (ip_body ''185.220.101.4''))"

text \<open>The direct request fails; port 9150 refuses at socket level; port 9050 is a Tor proxy.\<close>

definition direct_down :: "(unit, (string \<times> ipval) list) world" where
  "direct_down =
     mock_world (Inl (RequestException ''network unreachable''))
       (\<lambda>d. if d = create_proxies 9050 then Inr (ip_body ''185.220.101.4'')
            else Inl (SocketError ''refused''))"

text \<open>Port 9150 is a Tor proxy.\<close>

definition tor_on_9150 :: "(unit, (string \<times> ipval) list) world" where
  "tor_on_9150 =
     mock_world (Inr (ip_body ''203.0.113.7'')) (\<lambda>d. Inr (ip_body ''185.220.101.4''))"

text \<open>Through port 9150 the endpoint answers a JSON object without the member \<^verbatim>\<open>ip\<close>.\<close>

definition no_ip_member_on_9150 :: "(unit, (string \<times> ipval) list) world" where
  "no_ip_member_on_9150 =
     mock_world (Inr (ip_body ''203.0.113.7''))
       (\<lambda>d. if d = create_proxies 9150 then Inr [(''error'', PyStr ''rate limited'')]
            else Inr (ip_body ''185.220.101.4''))"

text \<open>A decorated function that returns the client and the arguments it was called with.\<close>

definition report_call ::
  "client \<Rightarrow> unit arg list \<Rightarrow> (string \<times> unit arg) list \<Rightarrow> unit io
     \<Rightarrow> (exn + client \<times> unit arg list \<times> (string \<times> unit arg) list) \<times> unit io" where
  "report_call tor as kws s = (Inr (tor, as, kws), py_print ''called'' s)"

text \<open>
  The default client after \<^verbatim>\<open>check_tor_connection()\<close> in the world where every request
  sees the same address, and the effects of that call.
\<close>

definition after_failed_check :: "client \<times> unit io" where
  "after_failed_check = snd (check_tor_connection same_ip_world (init [9150, 9050] 10) io0)"

text \<open>
  The direct request fails at socket level, or is answered by a JSON object without the
  member \<^verbatim>\<open>ip\<close>; every proxy port is a Tor proxy.
\<close>

definition direct_socket_error :: "(unit, (string \<times> ipval) list) world" where
  "direct_socket_error =
     mock_world (Inl (SocketError ''network unreachable'')) (\<lambda>d. Inr (ip_body ''185.220.101.4''))"

definition direct_no_ip_member :: "(unit, (string \<times> ipval) list) world" where
  "direct_no_ip_member =
     mock_world (Inr [(''error'', PyStr ''rate limited'')]) (\<lambda>d. Inr (ip_body ''185.220.101.4''))"

section \<open>Evaluation\<close>

lemma str_nat_digit: "n < 10 \<Longrightarrow> str_nat n = [digit_char n]"
  by (simp add: str_nat.simps)

lemma str_nat_more:
  "\<not> n < 10 \<Longrightarrow> str_nat n = str_nat (n div 10) @ [digit_char (n mod 10)]"
  by (subst str_nat.simps) simp

lemmas str_eval = str_int_def str_nat_digit str_nat_more digit_char_def

lemma create_proxies_9150:
  "create_proxies 9150 =
     [(''http'', ''socks5h://127.0.0.1:9150''), (''https'', ''socks5h://127.0.0.1:9150'')]"
  by (simp add: create_proxies_def str_eval)

lemma create_proxies_9050:
  "create_proxies 9050 =
     [(''http'', ''socks5h://127.0.0.1:9050''), (''https'', ''socks5h://127.0.0.1:9050'')]"
  by (simp add: create_proxies_def str_eval)

lemmas world_eval = ip_answer_def mock_world_def json_ip_def ip_body_def io0_def init_def
  probe_call_def tor_call_def direct_call_def proxies_arg_def create_proxies_def str_eval

lemmas direct_eval = get_direct_ip_def fetch_ip_def requests_call_def py_print_def

section \<open>The loop of \<^verbatim>\<open>check_tor_connection\<close>, one port at a time\<close>

lemma fetch_ip_eq:
  "fetch_ip w rq s = (ip_answer w (calls s) rq, s\<lparr>calls := calls s @ [rq]\<rparr>)"
  by (simp add: fetch_ip_def requests_call_def ip_answer_def split: sum.splits)

lemma get_tor_ip_eq:
  "get_tor_ip w c s = (ip_answer w (calls s) (tor_call c), s\<lparr>calls := calls s @ [tor_call c]\<rparr>)"
  by (simp add: get_tor_ip_def fetch_ip_eq split: sum.splits exn.splits)

lemma probe_call_proxies [simp]: "probe_call (c\<lparr>proxies := x\<rparr>) = probe_call c"
  by (rule ext) (simp add: probe_call_def)

lemma tor_call_probe [simp]:
  "tor_call (c\<lparr>proxies := Some (create_proxies port)\<rparr>) = probe_call c port"
  by (simp add: probe_call_def)

lemma all_rejected_proxies [simp]:
  "all_rejected w (c\<lparr>proxies := x\<rparr>) d h ports = all_rejected w c d h ports"
  by (induction ports arbitrary: h) simp_all

lemma check_ports_request_exception:
  assumes "ip_answer w (calls s) (probe_call c port) = Inl (RequestException m)"
  shows "check_ports w d (port # ports) c s =
           check_ports w d ports (c\<lparr>proxies := Some (create_proxies port)\<rparr>)
             (s\<lparr>calls := calls s @ [probe_call c port],
                stdout := stdout s @
                  [''Error checking Tor connection on port '' @ str_int port @ '': '' @ m]\<rparr>)"
  using assms by (simp add: get_tor_ip_eq py_print_def)

lemma check_ports_socket_error:
  assumes "ip_answer w (calls s) (probe_call c port) = Inl (SocketError m)"
  shows "check_ports w d (port # ports) c s =
           check_ports w d ports (c\<lparr>proxies := Some (create_proxies port)\<rparr>)
             (s\<lparr>calls := calls s @ [probe_call c port],
                stdout := stdout s @ [''Socket error on port '' @ str_int port @ '': '' @ m]\<rparr>)"
  using assms by (simp add: get_tor_ip_eq py_print_def)

lemma check_ports_same_or_empty:
  assumes "ip_answer w (calls s) (probe_call c port) = Inr ip" "\<not> (truthy ip \<and> ip \<noteq> d)"
  shows "check_ports w d (port # ports) c s =
           check_ports w d ports (c\<lparr>proxies := Some (create_proxies port)\<rparr>)
             (s\<lparr>calls := calls s @ [probe_call c port], stdout := stdout s @ []\<rparr>)"
  using assms by (auto simp add: get_tor_ip_eq Let_def)

lemma check_ports_rejected:
  assumes "port_rejected d (ip_answer w (calls s) (probe_call c port))"
  shows "\<exists>out. check_ports w d (port # ports) c s =
           check_ports w d ports (c\<lparr>proxies := Some (create_proxies port)\<rparr>)
             (s\<lparr>calls := calls s @ [probe_call c port], stdout := stdout s @ out\<rparr>)"
proof (cases "ip_answer w (calls s) (probe_call c port)")
  case (Inl e)
  with assms have "caught e" by simp
  then show ?thesis
  proof (cases e)
    case (RequestException m)
    with Inl show ?thesis using check_ports_request_exception by blast
  next
    case (SocketError m)
    with Inl show ?thesis using check_ports_socket_error by blast
  qed simp_all
next
  case (Inr ip)
  with assms have "\<not> (truthy ip \<and> ip \<noteq> d)" by simp
  with Inr show ?thesis using check_ports_same_or_empty by blast
qed

lemma check_ports_accepted:
  assumes "ip_answer w (calls s) (probe_call c port) = Inr tor_ip"
    and "truthy tor_ip" and "tor_ip \<noteq> d"
  shows "check_ports w d (port # ports) c s =
           (Inr True, c\<lparr>proxies := Some (create_proxies port)\<rparr>,
            s\<lparr>calls := calls s @ [probe_call c port],
              stdout := stdout s @
                [''Connected to Tor! Tor IP: '' @
                   (case tor_ip of PyStr ip \<Rightarrow> ip | PyNone \<Rightarrow> ''None'')]\<rparr>)"
  using assms by (simp add: get_tor_ip_eq py_print_def)

lemma check_ports_raised:
  assumes "ip_answer w (calls s) (probe_call c port) = Inl e" "\<not> caught e"
  shows "check_ports w d (port # ports) c s =
           (Inl e, c\<lparr>proxies := Some (create_proxies port)\<rparr>,
            s\<lparr>calls := calls s @ [probe_call c port]\<rparr>)"
  using assms by (cases e) (simp_all add: get_tor_ip_eq)

lemma foldl_proxies_override:
  "(foldl (\<lambda>c p. c\<lparr>proxies := Some (create_proxies p)\<rparr>) c ports)\<lparr>proxies := x\<rparr> = c\<lparr>proxies := x\<rparr>"
  by (induction ports arbitrary: c) simp_all

lemma check_ports_prefix:
  assumes "all_rejected w c d (calls s) pre"
  shows "\<exists>out. check_ports w d (pre @ rest) c s =
           check_ports w d rest (foldl (\<lambda>c p. c\<lparr>proxies := Some (create_proxies p)\<rparr>) c pre)
             (s\<lparr>calls := calls s @ map (probe_call c) pre, stdout := stdout s @ out\<rparr>)"
  using assms
proof (induction pre arbitrary: c s)
  case Nil
  show ?case by (rule exI [of _ "[]"]) simp
next
  case (Cons p pre)
  let ?c1 = "c\<lparr>proxies := Some (create_proxies p)\<rparr>"
  from Cons.prems have rej: "port_rejected d (ip_answer w (calls s) (probe_call c p))"
    and rest: "all_rejected w c d (calls s @ [probe_call c p]) pre" by simp_all
  from check_ports_rejected [OF rej] obtain out1 where
    1: "check_ports w d (p # (pre @ rest)) c s =
          check_ports w d (pre @ rest) ?c1 (s\<lparr>calls := calls s @ [probe_call c p], stdout := stdout s @ out1\<rparr>)"
    by blast
  let ?s1 = "s\<lparr>calls := calls s @ [probe_call c p], stdout := stdout s @ out1\<rparr>"
  from rest have "all_rejected w ?c1 d (calls ?s1) pre" by simp
  from Cons.IH [OF this] obtain out2 where
    2: "check_ports w d (pre @ rest) ?c1 ?s1 =
          check_ports w d rest (foldl (\<lambda>c p. c\<lparr>proxies := Some (create_proxies p)\<rparr>) ?c1 pre)
            (?s1\<lparr>calls := calls ?s1 @ map (probe_call ?c1) pre, stdout := stdout ?s1 @ out2\<rparr>)"
    by blast
  have "check_ports w d ((p # pre) @ rest) c s =
          check_ports w d rest (foldl (\<lambda>c p. c\<lparr>proxies := Some (create_proxies p)\<rparr>) c (p # pre))
            (s\<lparr>calls := calls s @ map (probe_call c) (p # pre), stdout := stdout s @ (out1 @ out2)\<rparr>)"
    using 1 2 by (simp del: check_ports.simps)
  then show ?case by blast
qed

declare check_ports.simps [simp del]

lemma all_rejected_append:
  "all_rejected w c d h (xs @ ys) =
     (all_rejected w c d h xs \<and> all_rejected w c d (h @ map (probe_call c) xs) ys)"
  by (induction xs arbitrary: h) simp_all

lemma foldl_proxies_last:
  "ports \<noteq> [] \<Longrightarrow>
     foldl (\<lambda>c p. c\<lparr>proxies := Some (create_proxies p)\<rparr>) c ports =
       c\<lparr>proxies := Some (create_proxies (last ports))\<rparr>"
  by (induction ports arbitrary: c) auto

lemma probe_call_foldl:
  "probe_call (foldl (\<lambda>c p. c\<lparr>proxies := Some (create_proxies p)\<rparr>) c pre) = probe_call c"
  by (induction pre arbitrary: c) simp_all

lemma probe_call_settings:
  "probe_call c p = probe_call c q \<Longrightarrow> create_proxies p = create_proxies q"
  by (simp add: probe_call_def tor_call_def proxies_arg_def)

lemma ip_answer_no_member:
  assumes "requests w h rq = Inr r" "json w r = Inr obj" "map_of obj ''ip'' = None"
  shows "ip_answer w h rq = Inl (KeyError ''ip'')"
  using assms by (simp add: ip_answer_def json_ip_def)

section \<open>The whole of \<^verbatim>\<open>check_tor_connection\<close>\<close>

lemma get_direct_ip_effects:
  "\<exists>out. snd (get_direct_ip w c s) =
          s\<lparr>calls := calls s @ [direct_call c], stdout := stdout s @ out\<rparr>"
proof (cases "ip_answer w (calls s) (direct_call c)")
  case (Inl e)
  show ?thesis
  proof (cases e)
    case (RequestException m)
    with Inl have "snd (get_direct_ip w c s) =
        s\<lparr>calls := calls s @ [direct_call c], stdout := stdout s @ [''Error getting direct IP: '' @ m]\<rparr>"
      by (simp add: get_direct_ip_def fetch_ip_eq py_print_def)
    then show ?thesis by blast
  qed (rule exI [of _ "[]"], simp add: get_direct_ip_def fetch_ip_eq Inl)+
next
  case (Inr ip)
  show ?thesis
    by (rule exI [of _ "[]"]) (simp add: get_direct_ip_def fetch_ip_eq Inr)
qed

lemma get_direct_ip_failed:
  assumes "ip_answer w (calls s) (direct_call c) = Inl (RequestException m)"
  shows "get_direct_ip w c s =
           (Inr PyNone,
            s\<lparr>calls := calls s @ [direct_call c],
              stdout := stdout s @ [''Error getting direct IP: '' @ m]\<rparr>)"
  using assms by (simp add: get_direct_ip_def fetch_ip_eq py_print_def)

lemma check_tor_connection_direct_raised:
  assumes "ip_answer w (calls s) (direct_call c) = Inl e" and "\<not> caught e"
  shows "check_tor_connection w c s = (Inl e, c, s\<lparr>calls := calls s @ [direct_call c]\<rparr>)"
  using assms
  by (cases e) (simp_all add: check_tor_connection_def get_direct_ip_def fetch_ip_eq)

lemma check_tor_connection_prefix:
  assumes ports: "tor_ports c = pre @ rest"
    and direct: "fst (get_direct_ip w c s) = Inr d"
    and rej: "all_rejected w c d (calls s @ [direct_call c]) pre"
  shows "\<exists>out. check_tor_connection w c s =
           check_ports w d rest (foldl (\<lambda>c p. c\<lparr>proxies := Some (create_proxies p)\<rparr>) c pre)
             (s\<lparr>calls := calls s @ direct_call c # map (probe_call c) pre,
                stdout := stdout s @ out\<rparr>)"
proof -
  obtain out0 where s1: "snd (get_direct_ip w c s) =
      s\<lparr>calls := calls s @ [direct_call c], stdout := stdout s @ out0\<rparr>"
    using get_direct_ip_effects by blast
  define out1 where "out1 = (if \<not> truthy d
      then out0 @ [''Warning: Unable to get direct IP. Continuing with Tor check...''] else out0)"
  let ?s2 = "s\<lparr>calls := calls s @ [direct_call c], stdout := stdout s @ out1\<rparr>"
  have run: "check_tor_connection w c s = check_ports w d (pre @ rest) c ?s2"
    using direct s1 ports
    by (cases "get_direct_ip w c s") (simp add: check_tor_connection_def py_print_def out1_def)
  from rej have "all_rejected w c d (calls ?s2) pre" by simp
  from check_ports_prefix [OF this, of rest] obtain out2 where
    "check_ports w d (pre @ rest) c ?s2 =
       check_ports w d rest (foldl (\<lambda>c p. c\<lparr>proxies := Some (create_proxies p)\<rparr>) c pre)
         (?s2\<lparr>calls := calls ?s2 @ map (probe_call c) pre, stdout := stdout ?s2 @ out2\<rparr>)"
    by blast
  with run have "check_tor_connection w c s =
       check_ports w d rest (foldl (\<lambda>c p. c\<lparr>proxies := Some (create_proxies p)\<rparr>) c pre)
         (s\<lparr>calls := calls s @ direct_call c # map (probe_call c) pre,
            stdout := stdout s @ (out1 @ out2)\<rparr>)"
    by simp
  then show ?thesis by blast
qed

lemma check_tor_connection_accepted:
  assumes ports: "tor_ports c = pre @ port # rest"
    and direct: "fst (get_direct_ip w c s) = Inr direct_ip"
    and earlier: "all_rejected w c direct_ip (calls s @ [direct_call c]) pre"
    and answer: "ip_answer w (calls s @ direct_call c # map (probe_call c) pre) (probe_call c port)
                   = Inr tor_ip"
    and present: "truthy tor_ip"
    and differs: "tor_ip \<noteq> direct_ip"
  shows "\<exists>out. check_tor_connection w c s =
           (Inr True, c\<lparr>proxies := Some (create_proxies port)\<rparr>,
            s\<lparr>calls := calls s @ direct_call c # map (probe_call c) pre @ [probe_call c port],
              stdout := stdout s @ out\<rparr>)"
proof -
  from check_tor_connection_prefix [OF ports direct earlier] obtain out where
    run: "check_tor_connection w c s =
       check_ports w direct_ip (port # rest)
         (foldl (\<lambda>c p. c\<lparr>proxies := Some (create_proxies p)\<rparr>) c pre)
         (s\<lparr>calls := calls s @ direct_call c # map (probe_call c) pre, stdout := stdout s @ out\<rparr>)"
    by blast
  let ?c = "foldl (\<lambda>c p. c\<lparr>proxies := Some (create_proxies p)\<rparr>) c pre"
  let ?s = "s\<lparr>calls := calls s @ direct_call c # map (probe_call c) pre, stdout := stdout s @ out\<rparr>"
  from answer have "ip_answer w (calls ?s) (probe_call ?c port) = Inr tor_ip"
    by (simp add: probe_call_foldl)
  from check_ports_accepted [OF this present differs, of rest] run
  have "check_tor_connection w c s =
           (Inr True, c\<lparr>proxies := Some (create_proxies port)\<rparr>,
            s\<lparr>calls := calls s @ direct_call c # map (probe_call c) pre @ [probe_call c port],
              stdout := stdout s @ (out @ [''Connected to Tor! Tor IP: '' @
                   (case tor_ip of PyStr ip \<Rightarrow> ip | PyNone \<Rightarrow> ''None'')])\<rparr>)"
    by (simp add: probe_call_foldl foldl_proxies_override)
  then show ?thesis by blast
qed

lemma check_tor_connection_direct_failed:
  assumes ports: "tor_ports c = pre @ port # rest"
    and failed: "ip_answer w (calls s) (direct_call c) = Inl (RequestException m)"
    and earlier: "all_rejected w c PyNone (calls s @ [direct_call c]) pre"
    and answer: "ip_answer w (calls s @ direct_call c # map (probe_call c) pre) (probe_call c port)
                   = Inr (PyStr ip)"
    and present: "ip \<noteq> []"
  shows "fst (get_direct_ip w c s) = Inr PyNone \<and>
         (\<exists>out. check_tor_connection w c s =
            (Inr True, c\<lparr>proxies := Some (create_proxies port)\<rparr>,
             s\<lparr>calls := calls s @ direct_call c # map (probe_call c) pre @ [probe_call c port],
               stdout := stdout s @
                 (''Error getting direct IP: '' @ m) #
                 ''Warning: Unable to get direct IP. Continuing with Tor check...'' # out\<rparr>))"
proof -
  let ?s1 = "s\<lparr>calls := calls s @ [direct_call c],
                stdout := stdout s @ [''Error getting direct IP: '' @ m]\<rparr>"
  let ?s2 = "s\<lparr>calls := calls s @ [direct_call c],
                stdout := stdout s @ [''Error getting direct IP: '' @ m,
                  ''Warning: Unable to get direct IP. Continuing with Tor check...'']\<rparr>"
  let ?c = "foldl (\<lambda>c p. c\<lparr>proxies := Some (create_proxies p)\<rparr>) c pre"
  have direct: "get_direct_ip w c s = (Inr PyNone, ?s1)"
    by (rule get_direct_ip_failed [OF failed])
  then have start: "check_tor_connection w c s = check_ports w PyNone (pre @ port # rest) c ?s2"
    by (simp add: check_tor_connection_def py_print_def ports)
  from earlier have "all_rejected w c PyNone (calls ?s2) pre"
    by simp
  from check_ports_prefix [OF this, of "port # rest"] obtain out where
    skip: "check_ports w PyNone (pre @ port # rest) c ?s2 =
       check_ports w PyNone (port # rest) ?c
         (?s2\<lparr>calls := calls ?s2 @ map (probe_call c) pre, stdout := stdout ?s2 @ out\<rparr>)"
    by blast
  let ?s3 = "?s2\<lparr>calls := calls ?s2 @ map (probe_call c) pre, stdout := stdout ?s2 @ out\<rparr>"
  have pc: "probe_call ?c = probe_call c"
    by (induction pre arbitrary: c) simp_all
  from answer have "ip_answer w (calls ?s3) (probe_call ?c port) = Inr (PyStr ip)"
    by (simp add: pc)
  moreover from present have "truthy (PyStr ip)" "PyStr ip \<noteq> PyNone"
    by simp_all
  ultimately have "check_ports w PyNone (port # rest) ?c ?s3 =
      (Inr True, ?c\<lparr>proxies := Some (create_proxies port)\<rparr>,
       ?s3\<lparr>calls := calls ?s3 @ [probe_call ?c port],
           stdout := stdout ?s3 @ [''Connected to Tor! Tor IP: '' @ ip]\<rparr>)"
    using check_ports_accepted [of w ?s3 ?c port "PyStr ip" PyNone rest] by simp
  with start skip have "check_tor_connection w c s =
      (Inr True, c\<lparr>proxies := Some (create_proxies port)\<rparr>,
       s\<lparr>calls := calls s @ direct_call c # map (probe_call c) pre @ [probe_call c port],
         stdout := stdout s @
           (''Error getting direct IP: '' @ m) #
           ''Warning: Unable to get direct IP. Continuing with Tor check...'' #
           (out @ [''Connected to Tor! Tor IP: '' @ ip])\<rparr>)"
    by (simp add: pc foldl_proxies_override)
  then have "\<exists>out. check_tor_connection w c s =
      (Inr True, c\<lparr>proxies := Some (create_proxies port)\<rparr>,
       s\<lparr>calls := calls s @ direct_call c # map (probe_call c) pre @ [probe_call c port],
         stdout := stdout s @
           (''Error getting direct IP: '' @ m) #
           ''Warning: Unable to get direct IP. Continuing with Tor check...'' # out\<rparr>)"
    by blast
  with direct show ?thesis by simp
qed

lemma check_tor_connection_raised:
  assumes ports: "tor_ports c = pre @ port # rest"
    and direct: "fst (get_direct_ip w c s) = Inr d"
    and earlier: "all_rejected w c d (calls s @ [direct_call c]) pre"
    and answer: "ip_answer w (calls s @ direct_call c # map (probe_call c) pre) (probe_call c port)
                   = Inl e"
    and uncaught: "\<not> caught e"
  shows "\<exists>out. check_tor_connection w c s =
           (Inl e, c\<lparr>proxies := Some (create_proxies port)\<rparr>,
            s\<lparr>calls := calls s @ direct_call c # map (probe_call c) pre @ [probe_call c port],
              stdout := stdout s @ out\<rparr>)"
proof -
  from check_tor_connection_prefix [OF ports direct earlier] obtain out where
    run: "check_tor_connection w c s =
       check_ports w d (port # rest)
         (foldl (\<lambda>c p. c\<lparr>proxies := Some (create_proxies p)\<rparr>) c pre)
         (s\<lparr>calls := calls s @ direct_call c # map (probe_call c) pre, stdout := stdout s @ out\<rparr>)"
    by blast
  let ?c = "foldl (\<lambda>c p. c\<lparr>proxies := Some (create_proxies p)\<rparr>) c pre"
  let ?s = "s\<lparr>calls := calls s @ direct_call c # map (probe_call c) pre, stdout := stdout s @ out\<rparr>"
  from answer have "ip_answer w (calls ?s) (probe_call ?c port) = Inl e"
    by (simp add: probe_call_foldl)
  from check_ports_raised [OF this uncaught, of d rest] run
  have "check_tor_connection w c s =
           (Inl e, c\<lparr>proxies := Some (create_proxies port)\<rparr>,
            s\<lparr>calls := calls s @ direct_call c # map (probe_call c) pre @ [probe_call c port],
              stdout := stdout s @ out\<rparr>)"
    by (simp add: probe_call_foldl foldl_proxies_override)
  then show ?thesis by blast
qed

lemma check_ports_calls:
  "\<exists>k\<le>length ports. calls (snd (snd (check_ports w d ports c s))) =
      calls s @ map (probe_call c) (take k ports)"
proof (induction ports arbitrary: c s)
  case Nil
  show ?case by (simp add: check_ports.simps py_print_def)
next
  case (Cons p ports)
  let ?c1 = "c\<lparr>proxies := Some (create_proxies p)\<rparr>"
  let ?a = "ip_answer w (calls s) (probe_call c p)"
  have cases3: "port_rejected d ?a \<or> (\<exists>ip. ?a = Inr ip \<and> truthy ip \<and> ip \<noteq> d) \<or>
      (\<exists>e. ?a = Inl e \<and> \<not> caught e)"
    by (cases ?a) auto
  have "calls (snd (snd (check_ports w d (p # ports) c s))) = calls s @ [probe_call c p] \<or>
      (\<exists>s1. check_ports w d (p # ports) c s = check_ports w d ports ?c1 s1 \<and>
         calls s1 = calls s @ [probe_call c p])"
  proof -
    { assume "port_rejected d ?a"
      from check_ports_rejected [OF this, of ports] obtain out where
        "check_ports w d (p # ports) c s = check_ports w d ports ?c1
           (s\<lparr>calls := calls s @ [probe_call c p], stdout := stdout s @ out\<rparr>)"
        by blast
      then have "\<exists>s1. check_ports w d (p # ports) c s = check_ports w d ports ?c1 s1 \<and>
         calls s1 = calls s @ [probe_call c p]"
        by (intro exI [of _ "s\<lparr>calls := calls s @ [probe_call c p], stdout := stdout s @ out\<rparr>"])
          simp }
    moreover
    { fix ip assume "?a = Inr ip" "truthy ip" "ip \<noteq> d"
      from check_ports_accepted [OF this, of ports]
      have "calls (snd (snd (check_ports w d (p # ports) c s))) = calls s @ [probe_call c p]"
        by simp }
    moreover
    { fix e assume "?a = Inl e" "\<not> caught e"
      from check_ports_raised [OF this, of d ports]
      have "calls (snd (snd (check_ports w d (p # ports) c s))) = calls s @ [probe_call c p]"
        by simp }
    ultimately show ?thesis using cases3 by blast
  qed
  then consider
      (stop) "calls (snd (snd (check_ports w d (p # ports) c s))) = calls s @ [probe_call c p]"
    | (go) s1 where "check_ports w d (p # ports) c s = check_ports w d ports ?c1 s1"
        "calls s1 = calls s @ [probe_call c p]"
    by blast
  then show ?case
  proof cases
    case stop
    then have "calls (snd (snd (check_ports w d (p # ports) c s))) =
        calls s @ map (probe_call c) (take 1 (p # ports))"
      by simp
    then show ?thesis by (intro exI [of _ 1]) simp
  next
    case go
    from Cons.IH [of ?c1 s1] obtain k where "k \<le> length ports"
      and "calls (snd (snd (check_ports w d ports ?c1 s1))) =
        calls s1 @ map (probe_call ?c1) (take k ports)"
      by blast
    with go have "Suc k \<le> length (p # ports)"
      and "calls (snd (snd (check_ports w d (p # ports) c s))) =
        calls s @ map (probe_call c) (take (Suc k) (p # ports))"
      by simp_all
    then show ?thesis by blast
  qed
qed

lemma check_tor_connection_calls:
  "\<exists>k\<le>length (tor_ports c). calls (snd (snd (check_tor_connection w c s))) =
      calls s @ direct_call c # map (probe_call c) (take k (tor_ports c))"
proof -
  obtain out where s1: "snd (get_direct_ip w c s) =
      s\<lparr>calls := calls s @ [direct_call c], stdout := stdout s @ out\<rparr>"
    using get_direct_ip_effects by blast
  show ?thesis
  proof (cases "fst (get_direct_ip w c s)")
    case (Inl e)
    with s1 have "calls (snd (snd (check_tor_connection w c s))) =
        calls s @ direct_call c # map (probe_call c) (take 0 (tor_ports c))"
      by (cases "get_direct_ip w c s") (simp add: check_tor_connection_def)
    then show ?thesis by blast
  next
    case (Inr d)
    with s1 obtain s2 where "check_tor_connection w c s = check_ports w d (tor_ports c) c s2"
      and "calls s2 = calls s @ [direct_call c]"
      by (cases "get_direct_ip w c s") (auto simp add: check_tor_connection_def py_print_def)
    with check_ports_calls [of "tor_ports c" w d c s2] show ?thesis by simp
  qed
qed

lemma check_ports_False:
  "check_ports w d ports c s = (Inr False, c', s') \<Longrightarrow>
     c' = foldl (\<lambda>c p. c\<lparr>proxies := Some (create_proxies p)\<rparr>) c ports \<and>
     calls s' = calls s @ map (probe_call c) ports"
proof (induction ports arbitrary: c s)
  case Nil
  then show ?case by (auto simp add: check_ports.simps py_print_def)
next
  case (Cons p ports)
  let ?c1 = "c\<lparr>proxies := Some (create_proxies p)\<rparr>"
  obtain s1 where step: "check_ports w d ports ?c1 s1 = (Inr False, c', s')"
    and s1: "calls s1 = calls s @ [probe_call c p]"
    using Cons.prems
    by (auto simp add: check_ports.simps get_tor_ip_eq Let_def py_print_def
        split: sum.splits exn.splits if_splits)
  from Cons.IH [OF step] s1 show ?case by simp
qed

lemma check_tor_connection_False:
  assumes "check_tor_connection w c s = (Inr False, c', s')"
  shows "c' = foldl (\<lambda>c p. c\<lparr>proxies := Some (create_proxies p)\<rparr>) c (tor_ports c) \<and>
         calls s' = calls s @ direct_call c # map (probe_call c) (tor_ports c)"
proof -
  obtain out where s1: "snd (get_direct_ip w c s) =
      s\<lparr>calls := calls s @ [direct_call c], stdout := stdout s @ out\<rparr>"
    using get_direct_ip_effects by blast
  obtain r s1' where g: "get_direct_ip w c s = (r, s1')"
    by (cases "get_direct_ip w c s")
  with s1 have s1': "calls s1' = calls s @ [direct_call c]" by simp
  from assms g obtain d s2 where "check_ports w d (tor_ports c) c s2 = (Inr False, c', s')"
    and "calls s2 = calls s1'"
    by (cases r) (auto simp add: check_tor_connection_def py_print_def split: if_splits)
  with check_ports_False [of w d "tor_ports c" c s2 c' s'] s1' show ?thesis by simp
qed

lemma check_ports_True:
  "check_ports w d ports c s = (Inr True, c', s') \<Longrightarrow>
     \<exists>port \<in> set ports. c' = c\<lparr>proxies := Some (create_proxies port)\<rparr> \<and>
       last (calls s') = probe_call c port"
proof (induction ports arbitrary: c s)
  case Nil
  then show ?case by (simp add: check_ports.simps)
next
  case (Cons p ports)
  let ?c1 = "c\<lparr>proxies := Some (create_proxies p)\<rparr>"
  from Cons.prems consider
      (here) "c' = ?c1" "last (calls s') = probe_call c p"
    | (later) s1 where "check_ports w d ports ?c1 s1 = (Inr True, c', s')"
    by (auto simp add: check_ports.simps get_tor_ip_eq Let_def py_print_def
        split: sum.splits exn.splits if_splits)
  then show ?case
  proof cases
    case here
    then show ?thesis by simp
  next
    case later
    from Cons.IH [OF later] show ?thesis by auto
  qed
qed

lemma check_tor_connection_True:
  assumes "check_tor_connection w c s = (Inr True, c', s')"
  shows "\<exists>port \<in> set (tor_ports c). c' = c\<lparr>proxies := Some (create_proxies port)\<rparr> \<and>
           last (calls s') = probe_call c port"
proof -
  from assms obtain d s2 where "check_ports w d (tor_ports c) c s2 = (Inr True, c', s')"
    by (auto simp add: check_tor_connection_def split: prod.splits sum.splits)
  then show ?thesis by (rule check_ports_True)
qed

lemma check_ports_config:
  "check_ports w d ports c s = (r, c', s') \<Longrightarrow>
     tor_ports c' = tor_ports c \<and> timeout c' = timeout c \<and> ip_check_url c' = ip_check_url c"
proof (induction ports arbitrary: c s)
  case Nil
  then show ?case by (auto simp add: check_ports.simps)
next
  case (Cons p ports)
  let ?c1 = "c\<lparr>proxies := Some (create_proxies p)\<rparr>"
  from Cons.prems consider
      (here) "c' = ?c1"
    | (later) s1 where "check_ports w d ports ?c1 s1 = (r, c', s')"
    by (auto simp add: check_ports.simps get_tor_ip_eq Let_def
        split: sum.splits exn.splits if_splits)
  then show ?case
  proof cases
    case here
    then show ?thesis by simp
  next
    case later
    from Cons.IH [OF later] show ?thesis by simp
  qed
qed

lemma check_tor_connection_config:
  assumes "check_tor_connection w c s = (r, c', s')"
  shows "tor_ports c' = tor_ports c \<and> timeout c' = timeout c \<and> ip_check_url c' = ip_check_url c"
proof (cases "fst (get_direct_ip w c s)")
  case (Inl e)
  with assms have "c' = c"
    by (auto simp add: check_tor_connection_def split: prod.splits)
  then show ?thesis by simp
next
  case (Inr d)
  with assms obtain s2 where "check_ports w d (tor_ports c) c s2 = (r, c', s')"
    by (auto simp add: check_tor_connection_def split: prod.splits)
  then show ?thesis by (rule check_ports_config)
qed

section \<open>The four operations and sequences of operations\<close>

lemma verb_defs_not_configured:
  assumes "proxies c = None"
  shows "client_tor_request w c meth as kws s =
           (Inl (Exception ''Tor proxy not configured. Run check_tor_connection() first.''), c, s)"
  using assms by (simp add: client_tor_request_def)

lemma client_tor_request_configured:
  assumes "proxies c = Some ps" "ps \<noteq> []"
  shows "client_tor_request w c meth as kws s =
           (requests w (calls s)
              \<lparr>http_method = meth, args = as, kwargs = AList.update ''proxies'' (ADict ps) kws\<rparr>,
            c,
            s\<lparr>calls := calls s @
               [\<lparr>http_method = meth, args = as, kwargs = AList.update ''proxies'' (ADict ps) kws\<rparr>]\<rparr>)"
  using assms by (simp add: client_tor_request_def requests_call_def proxies_arg_def)

lemma map_of_update_other:
  "k \<noteq> k' \<Longrightarrow> map_of (AList.update k' v kws) k = map_of kws k"
  by (simp add: update_conv')

lemma map_of_update_same:
  "map_of (AList.update k v kws) k = Some v"
  by (simp add: update_conv')

lemma step_verb_unchanged:
  "op \<noteq> CheckTorConnection \<Longrightarrow> fst (step w (c, s) op) = c"
  by (cases op) (simp_all add: get_def post_def put_def delete_def client_tor_request_def
      split: prod.splits)

lemma step_not_configured:
  "op \<noteq> CheckTorConnection \<Longrightarrow> proxies c = None \<Longrightarrow> step w (c, s) op = (c, s)"
  by (cases op) (simp_all add: get_def post_def put_def delete_def client_tor_request_def)

lemma run_not_configured:
  "CheckTorConnection \<notin> set ops \<Longrightarrow> proxies c = None \<Longrightarrow> run w ops (c, s) = (c, s)"
  unfolding run_def
  by (induction ops) (auto simp add: step_not_configured)

lemma run_verbs_unchanged:
  "CheckTorConnection \<notin> set ops \<Longrightarrow> fst (run w ops (c, s)) = c"
  unfolding run_def
proof (induction ops arbitrary: s)
  case Nil
  show ?case by simp
next
  case (Cons op ops)
  then have "op \<noteq> CheckTorConnection" and rest: "CheckTorConnection \<notin> set ops"
    by auto
  from step_verb_unchanged [OF this(1), of w c s]
  obtain s1 where "step w (c, s) op = (c, s1)"
    by (cases "step w (c, s) op") simp
  with Cons.IH [OF rest, of s1] show ?case by simp
qed

lemma step_config:
  assumes "step w (c, s) op = (c', s')"
  shows "tor_ports c' = tor_ports c \<and> timeout c' = timeout c \<and> ip_check_url c' = ip_check_url c"
proof (cases "op = CheckTorConnection")
  case True
  with assms have "check_tor_connection w c s = (fst (check_tor_connection w c s), c', s')"
    by (cases "check_tor_connection w c s") simp
  then show ?thesis by (rule check_tor_connection_config)
next
  case False
  from step_verb_unchanged [OF this, of w c s] assms show ?thesis by simp
qed

lemma run_config:
  "run w ops (c, s) = (c', s') \<Longrightarrow>
     tor_ports c' = tor_ports c \<and> timeout c' = timeout c \<and> ip_check_url c' = ip_check_url c"
  unfolding run_def
proof (induction ops arbitrary: c s)
  case Nil
  then show ?case by simp
next
  case (Cons op ops)
  obtain c1 s1 where 1: "step w (c, s) op = (c1, s1)"
    by (cases "step w (c, s) op")
  with Cons.prems have "foldl (step w) (c1, s1) ops = (c', s')"
    by simp
  from Cons.IH [OF this] step_config [OF 1] show ?case by simp
qed

lemma verb_plain:
  assumes "(verb, name) \<in> {(get, ''get''), (post, ''post''), (put, ''put''), (delete, ''delete'')}"
    and "''self'' \<notin> set (map fst kws)" and "''method'' \<notin> set (map fst kws)"
  shows "verb w c as kws s = client_tor_request w c name as kws s"
  using assms by (auto simp add: get_def post_def put_def delete_def)

lemma verb_configured:
  assumes "proxies c = Some ps" and "ps \<noteq> []"
    and "(verb, name) \<in> {(get, ''get''), (post, ''post''), (put, ''put''), (delete, ''delete'')}"
    and "''self'' \<notin> set (map fst kws)" and "''method'' \<notin> set (map fst kws)"
  shows "verb w c as kws s =
           (requests w (calls s)
              \<lparr>http_method = name, args = as, kwargs = AList.update ''proxies'' (ADict ps) kws\<rparr>,
            c,
            s\<lparr>calls := calls s @
               [\<lparr>http_method = name, args = as, kwargs = AList.update ''proxies'' (ADict ps) kws\<rparr>]\<rparr>)"
  using verb_plain [OF assms(3-5)] client_tor_request_configured [OF assms(1,2)] by simp

section \<open>A verification that returns \<^verbatim>\<open>False\<close>\<close>

text \<open>
  Claim C1. For every client and every candidate port list, if
  \<^verbatim>\<open>check_tor_connection()\<close> returns \<^verbatim>\<open>False\<close>, the client's \<^verbatim>\<open>proxies\<close> field is still
  \<^verbatim>\<open>None\<close> after the call, exactly as at construction.

  The loop assigns \<^verbatim>\<open>self.proxies\<close> before each probe, because \<^verbatim>\<open>_get_tor_ip\<close> reads the
  field, and nothing assigns it again. What holds instead: when the call returns
  \<^verbatim>\<open>False\<close>, every candidate port has been probed, in order, and the field holds the
  settings of the last candidate port; the client is unchanged only when the port list
  is empty.
\<close>

theorem check_tor_connection_false_proxies:
  assumes "check_tor_connection w c s = (Inr False, c', s')"
  shows "c' = (if tor_ports c = [] then c
               else c\<lparr>proxies := Some (create_proxies (last (tor_ports c)))\<rparr>) \<and>
         calls s' = calls s @ direct_call c # map (probe_call c) (tor_ports c)"
  using check_tor_connection_False [OF assms] by (simp add: foldl_proxies_last)

theorem check_tor_connection_false_proxies_witness:
  "fst (check_tor_connection same_ip_world (init [9150, 9050] 10) io0) = Inr False \<and>
   fst (snd (check_tor_connection same_ip_world (init [9150, 9050] 10) io0)) =
     (init [9150, 9050] 10)\<lparr>proxies := Some (create_proxies 9050)\<rparr> \<and>
   fst (check_tor_connection same_ip_world (init [] 10) io0) = Inr False \<and>
   fst (snd (check_tor_connection same_ip_world (init [] 10) io0)) = init [] 10"
proof -
  let ?both = "check_tor_connection same_ip_world (init [9150, 9050] 10) io0"
  let ?empty = "check_tor_connection same_ip_world (init [] 10) io0"
  have tp: "tor_ports (init [9150, 9050] 10) = [9150, 9050]"
    and tp0: "tor_ports (init [] 10) = []"
    by (simp_all add: init_def)
  have f: "fst ?both = Inr False"
    by (simp add: check_tor_connection_def check_ports.simps get_tor_ip_eq direct_eval world_eval
        same_ip_world_def)
  have f0: "fst ?empty = Inr False"
    by (simp add: check_tor_connection_def check_ports.simps get_tor_ip_eq direct_eval world_eval
        same_ip_world_def)
  from f have "?both = (Inr False, fst (snd ?both), snd (snd ?both))"
    by (metis prod.collapse)
  from check_tor_connection_false_proxies [OF this]
  have "fst (snd ?both) = (init [9150, 9050] 10)\<lparr>proxies := Some (create_proxies 9050)\<rparr>"
    by (simp add: tp)
  moreover from f0 have "?empty = (Inr False, fst (snd ?empty), snd (snd ?empty))"
    by (metis prod.collapse)
  from check_tor_connection_false_proxies [OF this]
  have "fst (snd ?empty) = init [] 10"
    by (simp add: tp0)
  ultimately show ?thesis using f f0 by simp
qed

text \<open>
  The claim as stated fails on the default client when the direct request and every
  proxied request see the same address: the call returns \<^verbatim>\<open>False\<close>, and the field, \<^verbatim>\<open>None\<close>
  at construction, holds the settings of port 9050.
\<close>

theorem check_tor_connection_false_proxies_counterexample:
  "fst (check_tor_connection same_ip_world (init [9150, 9050] 10) io0) = Inr False \<and>
   proxies (init [9150, 9050] 10) = None \<and>
   proxies (fst (snd (check_tor_connection same_ip_world (init [9150, 9050] 10) io0))) =
     Some [(''http'', ''socks5h://127.0.0.1:9050''), (''https'', ''socks5h://127.0.0.1:9050'')] \<and>
   proxies (fst (snd (check_tor_connection same_ip_world (init [9150, 9050] 10) io0))) \<noteq> None"
  by (simp add: check_tor_connection_def check_ports.simps get_tor_ip_eq direct_eval world_eval
        same_ip_world_def)

section \<open>The guard of the four operations\<close>

text \<open>
  Claim C2. For every client on which no \<^verbatim>\<open>check_tor_connection()\<close> call has yet returned
  \<^verbatim>\<open>True\<close>, every invocation of \<^verbatim>\<open>get\<close>, \<^verbatim>\<open>post\<close>, \<^verbatim>\<open>put\<close> or \<^verbatim>\<open>delete\<close> raises the
  configuration error at once and makes no network call.

  The guard of \<^verbatim>\<open>_tor_request\<close> tests the field \<^verbatim>\<open>self.proxies\<close>, not the outcome of a
  verification. What holds instead: on every client whose field is \<^verbatim>\<open>None\<close>, as it is
  from construction until \<^verbatim>\<open>check_tor_connection()\<close> first probes a port, each of the four
  operations, called with keyword arguments that do not use the parameter names \<^verbatim>\<open>self\<close>
  and \<^verbatim>\<open>method\<close>, raises the configuration error; called with any arguments at all it
  raises and leaves the client and the effects as they were, and so does every sequence
  of the four operations.
\<close>

theorem verbs_without_proxies:
  assumes "proxies c = None"
  shows "(''self'' \<notin> set (map fst kws) \<and> ''method'' \<notin> set (map fst kws) \<longrightarrow>
            get w c as kws s = (Inl (Exception ''Tor proxy not configured. Run check_tor_connection() first.''), c, s) \<and>
            post w c as kws s = (Inl (Exception ''Tor proxy not configured. Run check_tor_connection() first.''), c, s) \<and>
            put w c as kws s = (Inl (Exception ''Tor proxy not configured. Run check_tor_connection() first.''), c, s) \<and>
            delete w c as kws s = (Inl (Exception ''Tor proxy not configured. Run check_tor_connection() first.''), c, s)) \<and>
         (\<exists>e. get w c as kws s = (Inl e, c, s)) \<and>
         (\<exists>e. post w c as kws s = (Inl e, c, s)) \<and>
         (\<exists>e. put w c as kws s = (Inl e, c, s)) \<and>
         (\<exists>e. delete w c as kws s = (Inl e, c, s)) \<and>
         (CheckTorConnection \<notin> set ops \<longrightarrow> run w ops (c, s) = (c, s))"
proof -
  have "''self'' \<notin> set (map fst kws) \<and> ''method'' \<notin> set (map fst kws) \<longrightarrow>
            get w c as kws s = (Inl (Exception ''Tor proxy not configured. Run check_tor_connection() first.''), c, s) \<and>
            post w c as kws s = (Inl (Exception ''Tor proxy not configured. Run check_tor_connection() first.''), c, s) \<and>
            put w c as kws s = (Inl (Exception ''Tor proxy not configured. Run check_tor_connection() first.''), c, s) \<and>
            delete w c as kws s = (Inl (Exception ''Tor proxy not configured. Run check_tor_connection() first.''), c, s)"
    using assms
    by (simp add: get_def post_def put_def delete_def verb_defs_not_configured)
  moreover have "\<exists>e. get w c as kws s = (Inl e, c, s)" "\<exists>e. post w c as kws s = (Inl e, c, s)"
    "\<exists>e. put w c as kws s = (Inl e, c, s)" "\<exists>e. delete w c as kws s = (Inl e, c, s)"
    using assms
    by (auto simp add: get_def post_def put_def delete_def client_tor_request_def)
  moreover have "CheckTorConnection \<notin> set ops \<longrightarrow> run w ops (c, s) = (c, s)"
    using assms by (simp add: run_not_configured)
  ultimately show ?thesis by blast
qed

theorem verbs_without_proxies_witness:
  "proxies (init [9150, 9050] 10) = None \<and>
   get tor_on_9150 (init [9150, 9050] 10) [AStr ''https://example.com''] [] io0 =
     (Inl (Exception ''Tor proxy not configured. Run check_tor_connection() first.''), init [9150, 9050] 10, io0) \<and>
   snd (post tor_on_9150 (init [9150, 9050] 10) [AStr ''https://example.com'']
          [(''method'', AStr ''get'')] io0) = (init [9150, 9050] 10, io0) \<and>
   run tor_on_9150
     [Get [AStr ''https://example.com''] [], Post [AStr ''https://example.com/api''] []]
     (init [9150, 9050] 10, io0) = (init [9150, 9050] 10, io0)"
proof -
  have fresh: "proxies (init [9150, 9050] 10) = None"
    by (simp add: init_def)
  have verbs: "CheckTorConnection \<notin>
      set [Get [AStr ''https://example.com''] [], Post [AStr ''https://example.com/api''] []]"
    by simp
  have names: "''self'' \<notin> set (map fst ([] :: (string \<times> unit arg) list))"
    "''method'' \<notin> set (map fst ([] :: (string \<times> unit arg) list))"
    by simp_all
  from verbs_without_proxies [OF fresh, of "[]" tor_on_9150 "[AStr ''https://example.com'']" io0
      "[Get [AStr ''https://example.com''] [], Post [AStr ''https://example.com/api''] []]"]
    verbs names
  have plain: "get tor_on_9150 (init [9150, 9050] 10) [AStr ''https://example.com''] [] io0 =
     (Inl (Exception ''Tor proxy not configured. Run check_tor_connection() first.''), init [9150, 9050] 10, io0)"
    and seq: "run tor_on_9150
     [Get [AStr ''https://example.com''] [], Post [AStr ''https://example.com/api''] []]
     (init [9150, 9050] 10, io0) = (init [9150, 9050] 10, io0)"
    by blast+
  from verbs_without_proxies [OF fresh, of "[(''method'', AStr ''get'')]" tor_on_9150
      "[AStr ''https://example.com'']" io0 "[]"]
  obtain e where "post tor_on_9150 (init [9150, 9050] 10) [AStr ''https://example.com'']
          [(''method'', AStr ''get'')] io0 = (Inl e, init [9150, 9050] 10, io0)"
    by blast
  with fresh plain seq show ?thesis by simp
qed

text \<open>
  The claim as stated fails after a verification that returned \<^verbatim>\<open>False\<close>: in the world
  where every request sees the same address, \<^verbatim>\<open>get\<close> on the default client then sends
  the request, through the settings of port 9050, and returns the response.
\<close>

theorem verbs_without_proxies_counterexample:
  "fst (check_tor_connection same_ip_world (init [9150, 9050] 10) io0) = Inr False \<and>
   get same_ip_world (fst after_failed_check) [AStr ''https://example.com''] []
       (snd after_failed_check) =
     (Inr (ip_body ''203.0.113.7''), fst after_failed_check,
      (snd after_failed_check)\<lparr>calls := calls (snd after_failed_check) @
         [\<lparr>http_method = ''get'', args = [AStr ''https://example.com''],
           kwargs = [(''proxies'', ADict [(''http'', ''socks5h://127.0.0.1:9050''),
                                         (''https'', ''socks5h://127.0.0.1:9050'')])]\<rparr>]\<rparr>)"
  by (simp add: after_failed_check_def check_tor_connection_def check_ports.simps get_tor_ip_eq
      direct_eval world_eval same_ip_world_def get_def client_tor_request_def)

section \<open>The verification loop: order and first success\<close>

text \<open>
  Claim C3. For every configured port list, \<^verbatim>\<open>check_tor_connection()\<close> probes the
  candidate ports strictly in configured order, and at the first port whose probed IP is
  present and differs from the direct IP it stores that port's proxy settings and returns
  \<^verbatim>\<open>True\<close> at once, probing no further port.

  In every world and whatever the call returns or raises, the requests it makes are the
  direct one and then one per port of an initial part of the port list, in the order of
  the list. For the first accepted port the list is split at it: the ports \<open>pre\<close>
  before it were each probed and the loop went on after each (a caught exception, or an
  IP that is empty or equal to the direct IP); the probe of \<open>port\<close> yields an IP that
  is true and differs from the direct IP. Then the call returns \<^verbatim>\<open>True\<close>, the
  \<^verbatim>\<open>proxies\<close> field is \<^verbatim>\<open>_create_proxies(port)\<close>, and the last request made is the probe
  of \<open>port\<close>: none is made for the ports \<open>rest\<close>.
\<close>

theorem check_tor_connection_first_success:
  "(\<exists>k\<le>length (tor_ports c).
      calls (snd (snd (check_tor_connection w c s))) =
        calls s @ direct_call c # map (probe_call c) (take k (tor_ports c))) \<and>
   (tor_ports c = pre @ port # rest \<and>
    fst (get_direct_ip w c s) = Inr direct_ip \<and>
    all_rejected w c direct_ip (calls s @ [direct_call c]) pre \<and>
    ip_answer w (calls s @ direct_call c # map (probe_call c) pre) (probe_call c port) = Inr tor_ip \<and>
    truthy tor_ip \<and> tor_ip \<noteq> direct_ip \<longrightarrow>
      (\<exists>out. check_tor_connection w c s =
         (Inr True, c\<lparr>proxies := Some (create_proxies port)\<rparr>,
          s\<lparr>calls := calls s @ direct_call c # map (probe_call c) pre @ [probe_call c port],
            stdout := stdout s @ out\<rparr>)))"
  using check_tor_connection_calls [of c w s] check_tor_connection_accepted [of c pre port rest w s]
  by blast

theorem check_tor_connection_first_success_witness:
  "fst (check_tor_connection tor_on_9050 (init [9150, 9050] 10) io0) = Inr True \<and>
   proxies (fst (snd (check_tor_connection tor_on_9050 (init [9150, 9050] 10) io0))) =
     Some [(''http'', ''socks5h://127.0.0.1:9050''), (''https'', ''socks5h://127.0.0.1:9050'')] \<and>
   calls (snd (snd (check_tor_connection tor_on_9050 (init [9150, 9050] 10) io0))) =
     [direct_call (init [9150, 9050] 10), probe_call (init [9150, 9050] 10) 9150,
      probe_call (init [9150, 9050] 10) 9050]"
proof -
  let ?c = "init [9150, 9050] 10"
  have ports: "tor_ports ?c = [9150] @ 9050 # []"
    by (simp add: init_def)
  have direct: "fst (get_direct_ip tor_on_9050 ?c io0) = Inr (PyStr ''203.0.113.7'')"
    by (simp add: direct_eval world_eval tor_on_9050_def)
  have earlier: "all_rejected tor_on_9050 ?c (PyStr ''203.0.113.7'') (calls io0 @ [direct_call ?c]) [9150]"
    by (simp add: world_eval tor_on_9050_def)
  have answer: "ip_answer tor_on_9050 (calls io0 @ direct_call ?c # map (probe_call ?c) [9150])
      (probe_call ?c 9050) = Inr (PyStr ''185.220.101.4'')"
    by (simp add: world_eval tor_on_9050_def)
  have present: "truthy (PyStr ''185.220.101.4'')"
    and differs: "PyStr ''185.220.101.4'' \<noteq> PyStr ''203.0.113.7''"
    by simp_all
  from check_tor_connection_first_success [of ?c tor_on_9050 io0 "[9150]" 9050 "[]"
      "PyStr ''203.0.113.7''" "PyStr ''185.220.101.4''"]
    ports direct earlier answer present differs
  obtain out where "check_tor_connection tor_on_9050 ?c io0 =
           (Inr True, ?c\<lparr>proxies := Some (create_proxies 9050)\<rparr>,
            io0\<lparr>calls := calls io0 @ direct_call ?c # map (probe_call ?c) [9150] @ [probe_call ?c 9050],
              stdout := stdout io0 @ out\<rparr>)"
    by blast
  then show ?thesis by (simp add: create_proxies_9050 io0_def)
qed

section \<open>A proxy that does not change the address\<close>

text \<open>
  Claim C4. For every candidate port during verification, if the IP observed through
  that port's proxy equals the direct IP obtained before, the port counts as failed:
  \<^verbatim>\<open>check_tor_connection()\<close> does not return \<^verbatim>\<open>True\<close> for it and moves on to the next
  candidate.

  The ports \<open>pre\<close> before \<open>port\<close> were probed and passed over; the probe of \<open>port\<close>
  answers the direct IP itself. Then the call is the loop run on the remaining ports
  \<open>rest\<close>, from the state in which \<open>port\<close> has just been probed; with no port left it
  returns \<^verbatim>\<open>False\<close>.
\<close>

theorem check_tor_connection_same_ip_rejected:
  assumes ports: "tor_ports c = pre @ port # rest"
    and direct: "fst (get_direct_ip w c s) = Inr direct_ip"
    and earlier: "all_rejected w c direct_ip (calls s @ [direct_call c]) pre"
    and same: "ip_answer w (calls s @ direct_call c # map (probe_call c) pre) (probe_call c port)
                 = Inr direct_ip"
  shows "(\<exists>out. check_tor_connection w c s =
            check_ports w direct_ip rest (c\<lparr>proxies := Some (create_proxies port)\<rparr>)
              (s\<lparr>calls := calls s @ direct_call c # map (probe_call c) pre @ [probe_call c port],
                 stdout := stdout s @ out\<rparr>)) \<and>
         (rest = [] \<longrightarrow> fst (check_tor_connection w c s) = Inr False)"
proof -
  have ports': "tor_ports c = (pre @ [port]) @ rest"
    using ports by simp
  have "all_rejected w c direct_ip (calls s @ [direct_call c]) (pre @ [port])"
    using earlier same by (simp add: all_rejected_append)
  from check_tor_connection_prefix [OF ports' direct this] obtain out where
    run: "check_tor_connection w c s =
            check_ports w direct_ip rest (c\<lparr>proxies := Some (create_proxies port)\<rparr>)
              (s\<lparr>calls := calls s @ direct_call c # map (probe_call c) pre @ [probe_call c port],
                 stdout := stdout s @ out\<rparr>)"
    by (auto simp add: foldl_proxies_override)
  then have "rest = [] \<longrightarrow> fst (check_tor_connection w c s) = Inr False"
    by (simp add: check_ports.simps)
  with run show ?thesis by blast
qed

theorem check_tor_connection_same_ip_rejected_witness:
  "fst (check_tor_connection plain_proxy_on_9150 (init [9150, 9050] 10) io0) = Inr True \<and>
   proxies (fst (snd (check_tor_connection plain_proxy_on_9150 (init [9150, 9050] 10) io0))) =
     Some [(''http'', ''socks5h://127.0.0.1:9050''), (''https'', ''socks5h://127.0.0.1:9050'')] \<and>
   fst (check_tor_connection plain_proxy_on_9150 (init [9150] 10) io0) = Inr False"
proof -
  let ?w = "plain_proxy_on_9150"
  let ?c = "init [9150, 9050] 10"
  let ?c1 = "init [9150] 10"
  let ?d = "PyStr ''203.0.113.7''"
  have ports: "tor_ports ?c = [] @ 9150 # [9050]" and ports1: "tor_ports ?c1 = [] @ 9150 # []"
    by (simp_all add: init_def)
  have direct: "fst (get_direct_ip ?w ?c io0) = Inr ?d"
    and direct1: "fst (get_direct_ip ?w ?c1 io0) = Inr ?d"
    by (simp_all add: direct_eval world_eval plain_proxy_on_9150_def)
  have earlier: "all_rejected ?w ?c ?d (calls io0 @ [direct_call ?c]) []"
    and earlier1: "all_rejected ?w ?c1 ?d (calls io0 @ [direct_call ?c1]) []"
    by simp_all
  have same: "ip_answer ?w (calls io0 @ direct_call ?c # map (probe_call ?c) []) (probe_call ?c 9150)
      = Inr ?d"
    and same1: "ip_answer ?w (calls io0 @ direct_call ?c1 # map (probe_call ?c1) []) (probe_call ?c1 9150)
      = Inr ?d"
    by (simp_all add: world_eval plain_proxy_on_9150_def)
  from check_tor_connection_same_ip_rejected [OF ports direct earlier same]
  obtain out where run: "check_tor_connection ?w ?c io0 =
      check_ports ?w ?d [9050] (?c\<lparr>proxies := Some (create_proxies 9150)\<rparr>)
        (io0\<lparr>calls := calls io0 @ direct_call ?c # map (probe_call ?c) [] @ [probe_call ?c 9150],
             stdout := stdout io0 @ out\<rparr>)"
    by blast
  have "fst (check_tor_connection ?w ?c io0) = Inr True"
    and "proxies (fst (snd (check_tor_connection ?w ?c io0))) =
      Some [(''http'', ''socks5h://127.0.0.1:9050''), (''https'', ''socks5h://127.0.0.1:9050'')]"
    unfolding run
    by (simp_all add: check_ports.simps get_tor_ip_eq world_eval plain_proxy_on_9150_def py_print_def)
  moreover from check_tor_connection_same_ip_rejected [OF ports1 direct1 earlier1 same1]
  have "fst (check_tor_connection ?w ?c1 io0) = Inr False"
    by simp
  ultimately show ?thesis by simp
qed

section \<open>Verification without a direct IP\<close>

text \<open>
  Claim C5. If the direct-IP probe fails, \<^verbatim>\<open>check_tor_connection()\<close> logs a warning and
  continues with a null direct IP rather than aborting, and if a proxy probe on some
  candidate port then succeeds with any IP, \<^verbatim>\<open>check_tor_connection()\<close> returns \<^verbatim>\<open>True\<close>.

  \<^verbatim>\<open>_get_direct_ip\<close> catches \<^verbatim>\<open>requests.RequestException\<close> and nothing else. What holds
  instead: if the direct probe fails with a \<^verbatim>\<open>requests.RequestException\<close>, with message
  \<open>m\<close>, then \<^verbatim>\<open>_get_direct_ip\<close> returns \<^verbatim>\<open>None\<close>, the error and the warning are the next
  two lines printed, and the loop runs; with the ports \<open>pre\<close> probed and passed over
  and the probe of \<open>port\<close> answering a non-empty IP, whatever it is, the call returns
  \<^verbatim>\<open>True\<close> with that port's proxy settings. If the direct probe raises an exception
  that is neither a \<^verbatim>\<open>requests.RequestException\<close> nor a \<^verbatim>\<open>socket.error\<close>, as the
  \<^verbatim>\<open>KeyError\<close> of a response without the member \<^verbatim>\<open>ip\<close> is, the call raises it: the
  direct request is the only one made, and nothing is printed.
\<close>

theorem check_tor_connection_without_direct_ip:
  "(tor_ports c = pre @ port # rest \<and>
    ip_answer w (calls s) (direct_call c) = Inl (RequestException m) \<and>
    all_rejected w c PyNone (calls s @ [direct_call c]) pre \<and>
    ip_answer w (calls s @ direct_call c # map (probe_call c) pre) (probe_call c port)
      = Inr (PyStr ip) \<and>
    ip \<noteq> [] \<longrightarrow>
      fst (get_direct_ip w c s) = Inr PyNone \<and>
      (\<exists>out. check_tor_connection w c s =
         (Inr True, c\<lparr>proxies := Some (create_proxies port)\<rparr>,
          s\<lparr>calls := calls s @ direct_call c # map (probe_call c) pre @ [probe_call c port],
            stdout := stdout s @
              (''Error getting direct IP: '' @ m) #
              ''Warning: Unable to get direct IP. Continuing with Tor check...'' # out\<rparr>))) \<and>
   (ip_answer w (calls s) (direct_call c) = Inl e \<and> \<not> caught e \<longrightarrow>
      check_tor_connection w c s = (Inl e, c, s\<lparr>calls := calls s @ [direct_call c]\<rparr>))"
  using check_tor_connection_direct_failed [of c pre port rest w s m ip]
    check_tor_connection_direct_raised [of w s c e]
  by blast

theorem check_tor_connection_without_direct_ip_witness:
  "fst (get_direct_ip direct_down (init [9150, 9050] 10) io0) = Inr PyNone \<and>
   fst (check_tor_connection direct_down (init [9150, 9050] 10) io0) = Inr True \<and>
   take 2 (stdout (snd (snd (check_tor_connection direct_down (init [9150, 9050] 10) io0)))) =
     [''Error getting direct IP: network unreachable'',
      ''Warning: Unable to get direct IP. Continuing with Tor check...''] \<and>
   check_tor_connection direct_no_ip_member (init [9150, 9050] 10) io0 =
     (Inl (KeyError ''ip''), init [9150, 9050] 10,
      io0\<lparr>calls := [direct_call (init [9150, 9050] 10)]\<rparr>)"
proof -
  let ?w = "direct_down"
  let ?c = "init [9150, 9050] 10"
  have ports: "tor_ports ?c = [9150] @ 9050 # []"
    by (simp add: init_def)
  have failed: "ip_answer ?w (calls io0) (direct_call ?c) = Inl (RequestException ''network unreachable'')"
    by (simp add: world_eval direct_down_def)
  have earlier: "all_rejected ?w ?c PyNone (calls io0 @ [direct_call ?c]) [9150]"
    by (simp add: world_eval direct_down_def)
  have answer: "ip_answer ?w (calls io0 @ direct_call ?c # map (probe_call ?c) [9150])
      (probe_call ?c 9050) = Inr (PyStr ''185.220.101.4'')"
    by (simp add: world_eval direct_down_def)
  have present: "''185.220.101.4'' \<noteq> []"
    by simp
  from check_tor_connection_without_direct_ip [of ?c "[9150]" 9050 "[]" ?w io0
      "''network unreachable''" "''185.220.101.4''"]
    ports failed earlier answer present
  have recovered: "fst (get_direct_ip ?w ?c io0) = Inr PyNone \<and>
      (\<exists>out. check_tor_connection ?w ?c io0 =
         (Inr True, ?c\<lparr>proxies := Some (create_proxies 9050)\<rparr>,
          io0\<lparr>calls := calls io0 @ direct_call ?c # map (probe_call ?c) [9150] @ [probe_call ?c 9050],
            stdout := stdout io0 @
              (''Error getting direct IP: '' @ ''network unreachable'') #
              ''Warning: Unable to get direct IP. Continuing with Tor check...'' # out\<rparr>))"
    by blast
  have lookup: "ip_answer direct_no_ip_member (calls io0) (direct_call ?c) = Inl (KeyError ''ip'')"
    and uncaught: "\<not> caught (KeyError ''ip'')"
    by (simp_all add: world_eval direct_no_ip_member_def)
  from check_tor_connection_without_direct_ip [of ?c _ _ _ direct_no_ip_member io0 _ _
      "KeyError ''ip''"] lookup uncaught
  have "check_tor_connection direct_no_ip_member ?c io0 =
      (Inl (KeyError ''ip''), ?c, io0\<lparr>calls := calls io0 @ [direct_call ?c]\<rparr>)"
    by blast
  with recovered show ?thesis by (auto simp add: io0_def)
qed

text \<open>
  The claim as stated fails when the direct probe fails in another way than by a
  \<^verbatim>\<open>requests.RequestException\<close>. With every proxy port a Tor proxy, a direct request that
  fails at socket level, and one answered without the member \<^verbatim>\<open>ip\<close>, each make the
  default client's \<^verbatim>\<open>check_tor_connection()\<close> raise: no warning is printed and no port is
  probed.
\<close>

theorem check_tor_connection_without_direct_ip_counterexample:
  "check_tor_connection direct_socket_error (init [9150, 9050] 10) io0 =
     (Inl (SocketError ''network unreachable''), init [9150, 9050] 10,
      \<lparr>calls = [direct_call (init [9150, 9050] 10)], stdout = []\<rparr>) \<and>
   check_tor_connection direct_no_ip_member (init [9150, 9050] 10) io0 =
     (Inl (KeyError ''ip''), init [9150, 9050] 10,
      \<lparr>calls = [direct_call (init [9150, 9050] 10)], stdout = []\<rparr>) \<and>
   ip_answer direct_socket_error [direct_call (init [9150, 9050] 10)]
     (probe_call (init [9150, 9050] 10) 9150) = Inr (PyStr ''185.220.101.4'') \<and>
   ip_answer direct_no_ip_member [direct_call (init [9150, 9050] 10)]
     (probe_call (init [9150, 9050] 10) 9150) = Inr (PyStr ''185.220.101.4'')"
  by (simp add: check_tor_connection_def direct_eval world_eval direct_socket_error_def
      direct_no_ip_member_def)

section \<open>The proxy settings of a port\<close>

text \<open>
  Claim C6. For every port number \<open>p\<close>, the proxy settings derived from \<open>p\<close> map both
  the plain-HTTP and the HTTPS scheme to the string \<^verbatim>\<open>socks5h://127.0.0.1:\<close> followed by
  \<open>p\<close>; in particular, after a successful verification on port 9150, every later verb
  call attaches \<^verbatim>\<open>socks5h://127.0.0.1:9150\<close> as the proxy for both schemes.

  The dictionary has the two keys \<^verbatim>\<open>http\<close> and \<^verbatim>\<open>https\<close>, each with that string, \<open>p\<close>
  written in decimal; for port 9150 both are \<^verbatim>\<open>socks5h://127.0.0.1:9150\<close>. A verification
  that returned \<^verbatim>\<open>True\<close> with the probe of port 9150 as its last request leaves these
  settings in the \<^verbatim>\<open>proxies\<close> field, and so they are after any sequence \<open>ops\<close> of verb
  calls. Each of the four operations, called then with keyword arguments that do not use
  the parameter names \<^verbatim>\<open>self\<close> and \<^verbatim>\<open>method\<close>, makes exactly one new request \<open>rq\<close>, to
  the function of \<^verbatim>\<open>requests\<close> of its own name, and returns what \<^verbatim>\<open>requests\<close> answers to
  it; the option \<^verbatim>\<open>proxies\<close> of \<open>rq\<close> is the dictionary of port 9150.
\<close>

theorem proxy_settings_of_port:
  "map_of (create_proxies p) ''http'' = Some (''socks5h://127.0.0.1:'' @ str_int p) \<and>
   map_of (create_proxies p) ''https'' = Some (''socks5h://127.0.0.1:'' @ str_int p) \<and>
   map fst (create_proxies p) = [''http'', ''https''] \<and>
   create_proxies 9150 = [(''http'', ''socks5h://127.0.0.1:9150''), (''https'', ''socks5h://127.0.0.1:9150'')] \<and>
   (check_tor_connection w c0 s0 = (Inr True, c1, s1) \<and> last (calls s1) = probe_call c0 9150 \<and>
    CheckTorConnection \<notin> set ops \<and> run w ops (c1, s1) = (c, s) \<and>
    (verb, name) \<in> {(get, ''get''), (post, ''post''), (put, ''put''), (delete, ''delete'')} \<and>
    ''self'' \<notin> set (map fst kws) \<and> ''method'' \<notin> set (map fst kws) \<and>
    rq = \<lparr>http_method = name, args = as,
           kwargs = AList.update ''proxies'' (ADict [(''http'', ''socks5h://127.0.0.1:9150''), (''https'', ''socks5h://127.0.0.1:9150'')]) kws\<rparr> \<longrightarrow>
      proxies c = Some [(''http'', ''socks5h://127.0.0.1:9150''), (''https'', ''socks5h://127.0.0.1:9150'')] \<and>
      verb w c as kws s = (requests w (calls s) rq, c, s\<lparr>calls := calls s @ [rq]\<rparr>) \<and>
      map_of (kwargs rq) ''proxies'' = Some (ADict [(''http'', ''socks5h://127.0.0.1:9150''), (''https'', ''socks5h://127.0.0.1:9150'')]))"
proof (intro conjI impI)
  assume a: "check_tor_connection w c0 s0 = (Inr True, c1, s1) \<and>
    last (calls s1) = probe_call c0 9150 \<and>
    CheckTorConnection \<notin> set ops \<and> run w ops (c1, s1) = (c, s) \<and>
    (verb, name) \<in> {(get, ''get''), (post, ''post''), (put, ''put''), (delete, ''delete'')} \<and>
    ''self'' \<notin> set (map fst kws) \<and> ''method'' \<notin> set (map fst kws) \<and>
    rq = \<lparr>http_method = name, args = as,
           kwargs = AList.update ''proxies'' (ADict [(''http'', ''socks5h://127.0.0.1:9150''), (''https'', ''socks5h://127.0.0.1:9150'')]) kws\<rparr>"
  then have chk: "check_tor_connection w c0 s0 = (Inr True, c1, s1)"
    and lastc: "last (calls s1) = probe_call c0 9150"
    and verb: "(verb, name) \<in> {(get, ''get''), (post, ''post''), (put, ''put''), (delete, ''delete'')}"
    and names: "''self'' \<notin> set (map fst kws)" "''method'' \<notin> set (map fst kws)"
    and rq: "rq = \<lparr>http_method = name, args = as,
           kwargs = AList.update ''proxies'' (ADict [(''http'', ''socks5h://127.0.0.1:9150''), (''https'', ''socks5h://127.0.0.1:9150'')]) kws\<rparr>"
    by simp_all
  from check_tor_connection_True [OF chk] obtain port
    where c1: "c1 = c0\<lparr>proxies := Some (create_proxies port)\<rparr>"
      and lastp: "last (calls s1) = probe_call c0 port"
    by blast
  from lastc lastp have "create_proxies port = create_proxies 9150"
    by (metis probe_call_settings)
  with c1 have "proxies c1 = Some (create_proxies 9150)"
    by simp
  moreover from a have "c = c1"
    using run_verbs_unchanged [of ops w c1 s1] by simp
  ultimately have c: "proxies c = Some [(''http'', ''socks5h://127.0.0.1:9150''), (''https'', ''socks5h://127.0.0.1:9150'')]"
    by (simp add: create_proxies_9150)
  then show "proxies c = Some [(''http'', ''socks5h://127.0.0.1:9150''), (''https'', ''socks5h://127.0.0.1:9150'')]" .
  have "[(''http'', ''socks5h://127.0.0.1:9150''), (''https'', ''socks5h://127.0.0.1:9150'')] \<noteq> []"
    by simp
  from verb_configured [OF c this verb names, of w as s] rq
  show "verb w c as kws s = (requests w (calls s) rq, c, s\<lparr>calls := calls s @ [rq]\<rparr>)"
    by simp
  show "map_of (kwargs rq) ''proxies'' = Some (ADict [(''http'', ''socks5h://127.0.0.1:9150''), (''https'', ''socks5h://127.0.0.1:9150'')])"
    by (simp add: rq map_of_update_same)
qed (simp_all add: create_proxies_def str_eval)

theorem proxy_settings_of_port_witness:
  "fst (check_tor_connection tor_on_9150 (init [9150, 9050] 10) io0) = Inr True \<and>
   last (calls (snd (snd (check_tor_connection tor_on_9150 (init [9150, 9050] 10) io0)))) =
     probe_call (init [9150, 9050] 10) 9150 \<and>
   post tor_on_9150
       (fst (run tor_on_9150 [Get [AStr ''https://example.com''] []]
               (snd (check_tor_connection tor_on_9150 (init [9150, 9050] 10) io0))))
       [AStr ''https://example.com/api''] []
       (snd (run tor_on_9150 [Get [AStr ''https://example.com''] []]
               (snd (check_tor_connection tor_on_9150 (init [9150, 9050] 10) io0)))) =
     (Inr (ip_body ''185.220.101.4''),
      fst (run tor_on_9150 [Get [AStr ''https://example.com''] []]
               (snd (check_tor_connection tor_on_9150 (init [9150, 9050] 10) io0))),
      (snd (run tor_on_9150 [Get [AStr ''https://example.com''] []]
               (snd (check_tor_connection tor_on_9150 (init [9150, 9050] 10) io0))))
       \<lparr>calls :=
          calls (snd (run tor_on_9150 [Get [AStr ''https://example.com''] []]
               (snd (check_tor_connection tor_on_9150 (init [9150, 9050] 10) io0)))) @
          [\<lparr>http_method = ''post'', args = [AStr ''https://example.com/api''],
            kwargs = [(''proxies'', ADict [(''http'', ''socks5h://127.0.0.1:9150''), (''https'', ''socks5h://127.0.0.1:9150'')])]\<rparr>]\<rparr>)"
proof -
  let ?w = "tor_on_9150"
  let ?chk = "check_tor_connection ?w (init [9150, 9050] 10) io0"
  let ?ops = "[Get [AStr ''https://example.com''] []]"
  let ?st = "run ?w ?ops (snd ?chk)"
  let ?rq = "\<lparr>http_method = ''post'', args = [AStr ''https://example.com/api''],
      kwargs = AList.update ''proxies'' (ADict [(''http'', ''socks5h://127.0.0.1:9150''), (''https'', ''socks5h://127.0.0.1:9150'')]) ([] :: (string \<times> unit arg) list)\<rparr>"
  have ok: "fst ?chk = Inr True"
    and lastc: "last (calls (snd (snd ?chk))) = probe_call (init [9150, 9050] 10) 9150"
    by (simp_all add: check_tor_connection_def check_ports.simps get_tor_ip_eq direct_eval
        world_eval tor_on_9150_def)
  from ok have chk: "?chk = (Inr True, fst (snd ?chk), snd (snd ?chk))"
    by (metis prod.collapse)
  have verbs: "CheckTorConnection \<notin> set ?ops"
    by simp
  have st: "run ?w ?ops (fst (snd ?chk), snd (snd ?chk)) = (fst ?st, snd ?st)"
    by simp
  have verb: "(post, ''post'') \<in> {(get, ''get''), (post, ''post''), (put, ''put''), (delete, ''delete'')}"
    by simp
  have names: "''self'' \<notin> set (map fst ([] :: (string \<times> unit arg) list))"
    "''method'' \<notin> set (map fst ([] :: (string \<times> unit arg) list))"
    by simp_all
  from proxy_settings_of_port [of 9150 ?w "init [9150, 9050] 10" io0 "fst (snd ?chk)"
      "snd (snd ?chk)" ?ops "fst ?st" "snd ?st" post "''post''" "[]" ?rq
      "[AStr ''https://example.com/api'']"]
    chk lastc verbs st verb names
  have "post ?w (fst ?st) [AStr ''https://example.com/api''] [] (snd ?st) =
      (requests ?w (calls (snd ?st)) ?rq, fst ?st, (snd ?st)\<lparr>calls := calls (snd ?st) @ [?rq]\<rparr>)"
    by blast
  then have "post ?w (fst ?st) [AStr ''https://example.com/api''] [] (snd ?st) =
      (Inr (ip_body ''185.220.101.4''), fst ?st,
       (snd ?st)\<lparr>calls := calls (snd ?st) @
          [\<lparr>http_method = ''post'', args = [AStr ''https://example.com/api''],
            kwargs = [(''proxies'', ADict [(''http'', ''socks5h://127.0.0.1:9150''), (''https'', ''socks5h://127.0.0.1:9150'')])]\<rparr>]\<rparr>)"
    by (simp add: tor_on_9150_def mock_world_def)
  with ok lastc show ?thesis by blast
qed

section \<open>Dispatch of the four operations\<close>

text \<open>
  Claim C7. For every verb call (\<^verbatim>\<open>get\<close>, \<^verbatim>\<open>post\<close>, \<^verbatim>\<open>put\<close>, \<^verbatim>\<open>delete\<close>) on a client with
  active proxy settings, the dispatch sets only the \<^verbatim>\<open>proxies\<close> request option, to the
  active settings, passes every other option of the caller to the underlying HTTP client
  unchanged, and returns that client's response unmodified.

  The options of the caller are keyword arguments other than the names \<^verbatim>\<open>self\<close> and
  \<^verbatim>\<open>method\<close>, which Python binds to the parameters of the class's own methods and which
  no function of \<^verbatim>\<open>requests\<close> takes as an option. With \<^verbatim>\<open>self.proxies\<close> a non-empty
  dictionary \<open>ps\<close>, each of the four operations makes one request \<open>rq\<close> to the function
  of \<^verbatim>\<open>requests\<close> of its own name, and its outcome is what \<^verbatim>\<open>requests\<close> answers to \<open>rq\<close>,
  response or exception; the client is unchanged. The request has the positional
  arguments of the caller; its option \<^verbatim>\<open>proxies\<close> is \<open>ps\<close>; every other key has the value
  the caller gave it, and the keys stand in the caller's order, with \<^verbatim>\<open>proxies\<close> added
  last when the caller did not pass it.
\<close>

theorem verbs_pass_options_through:
  assumes "proxies c = Some ps" and "ps \<noteq> []"
    and "(verb, name) \<in> {(get, ''get''), (post, ''post''), (put, ''put''), (delete, ''delete'')}"
    and "''self'' \<notin> set (map fst kws)" and "''method'' \<notin> set (map fst kws)"
    and "rq = \<lparr>http_method = name, args = as, kwargs = AList.update ''proxies'' (ADict ps) kws\<rparr>"
  shows "verb w c as kws s = (requests w (calls s) rq, c, s\<lparr>calls := calls s @ [rq]\<rparr>) \<and>
         args rq = as \<and>
         map_of (kwargs rq) ''proxies'' = Some (ADict ps) \<and>
         (\<forall>k. k \<noteq> ''proxies'' \<longrightarrow> map_of (kwargs rq) k = map_of kws k) \<and>
         map fst (kwargs rq) =
           (if ''proxies'' \<in> fst ` set kws then map fst kws else map fst kws @ [''proxies''])"
proof -
  from verb_configured [OF assms(1-5)] assms(6)
  have "verb w c as kws s = (requests w (calls s) rq, c, s\<lparr>calls := calls s @ [rq]\<rparr>)"
    by simp
  moreover have "map_of (kwargs rq) ''proxies'' = Some (ADict ps)"
    by (simp add: assms(6) map_of_update_same)
  moreover have "\<forall>k. k \<noteq> ''proxies'' \<longrightarrow> map_of (kwargs rq) k = map_of kws k"
    by (simp add: assms(6) map_of_update_other)
  moreover have "map fst (kwargs rq) =
           (if ''proxies'' \<in> fst ` set kws then map fst kws else map fst kws @ [''proxies''])"
    by (simp add: assms(6) update_keys)
  ultimately show ?thesis by (simp add: assms(6))
qed

theorem verbs_pass_options_through_witness:
  "post tor_on_9150 ((init [9150, 9050] 10)\<lparr>proxies := Some (create_proxies 9150)\<rparr>)
       [AStr ''https://example.com/api'']
       [(''json'', AOther ()), (''proxies'', ANone), (''timeout'', AInt 5)] io0 =
     (Inr (ip_body ''185.220.101.4''),
      (init [9150, 9050] 10)\<lparr>proxies := Some (create_proxies 9150)\<rparr>,
      io0\<lparr>calls :=
        [\<lparr>http_method = ''post'', args = [AStr ''https://example.com/api''],
          kwargs = [(''json'', AOther ()),
                    (''proxies'', ADict [(''http'', ''socks5h://127.0.0.1:9150''),
                                        (''https'', ''socks5h://127.0.0.1:9150'')]),
                    (''timeout'', AInt 5)]\<rparr>]\<rparr>)"
proof -
  let ?c = "(init [9150, 9050] 10)\<lparr>proxies := Some (create_proxies 9150)\<rparr>"
  let ?kws = "[(''json'', AOther ()), (''proxies'', ANone), (''timeout'', AInt 5)]"
  let ?rq = "\<lparr>http_method = ''post'', args = [AStr ''https://example.com/api''],
      kwargs = AList.update ''proxies'' (ADict (create_proxies 9150)) ?kws\<rparr>"
  have configured: "proxies ?c = Some (create_proxies 9150)" and nonempty: "create_proxies 9150 \<noteq> []"
    by (simp_all add: create_proxies_def)
  have verb: "(post, ''post'') \<in> {(get, ''get''), (post, ''post''), (put, ''put''), (delete, ''delete'')}"
    by simp
  have names: "''self'' \<notin> set (map fst ?kws)" "''method'' \<notin> set (map fst ?kws)"
    by simp_all
  from verbs_pass_options_through [OF configured nonempty verb names refl,
      of tor_on_9150 "[AStr ''https://example.com/api'']" io0]
  have "post tor_on_9150 ?c [AStr ''https://example.com/api''] ?kws io0 =
      (requests tor_on_9150 (calls io0) ?rq, ?c, io0\<lparr>calls := calls io0 @ [?rq]\<rparr>)"
    by blast
  then show ?thesis
    by (simp add: tor_on_9150_def mock_world_def io0_def create_proxies_9150)
qed

section \<open>The decorated function\<close>

text \<open>
  Claim C8. For every wrapped function \<open>func\<close> and every argument list, a call of the
  \<^verbatim>\<open>tor_request\<close>-wrapped version constructs a fresh client and runs the verification; if
  the verification fails it raises a connection error and never calls \<open>func\<close>, and if
  it succeeds it calls \<open>func\<close> with the verified client before the original arguments
  and returns the result of \<open>func\<close> unchanged.

  The client is the default one, \<^verbatim>\<open>TorRequestsWrapper()\<close>. When its verification returns
  \<^verbatim>\<open>False\<close>, the wrapper raises the exception, its effects are those of the verification
  alone, and the outcome is the same for any other function \<open>func'\<close>. When it returns
  \<^verbatim>\<open>True\<close>, the outcome is that of \<open>func\<close> on the client the verification left, the
  caller's positional and keyword arguments and the effects so far; that client is the
  default one with the proxy settings of port 9150 or of port 9050.
\<close>

theorem tor_request_wrapper:
  "(check_tor_connection w (init [9150, 9050] 10) s = (Inr False, tor, s') \<longrightarrow>
      tor_request w func as kws s =
        (Inl (Exception
           ''Tor connection failed. Make sure Tor is running and configured correctly.''), s') \<and>
      tor_request w func as kws s = tor_request w func' as kws s) \<and>
   (check_tor_connection w (init [9150, 9050] 10) s = (Inr True, tor, s') \<longrightarrow>
      tor_request w func as kws s = func tor as kws s' \<and>
      (\<exists>port \<in> {9150, 9050}.
         tor = (init [9150, 9050] 10)\<lparr>proxies := Some (create_proxies port)\<rparr>))"
proof (intro conjI impI)
  assume "check_tor_connection w (init [9150, 9050] 10) s = (Inr True, tor, s')"
  from check_tor_connection_True [OF this]
  show "\<exists>port \<in> {9150, 9050}.
         tor = (init [9150, 9050] 10)\<lparr>proxies := Some (create_proxies port)\<rparr>"
    by (auto simp add: init_def)
qed (simp_all add: tor_request_def)

theorem tor_request_wrapper_witness:
  "tor_request tor_on_9050 report_call [AInt 42] [] io0 =
     (Inr ((init [9150, 9050] 10)\<lparr>proxies := Some (create_proxies 9050)\<rparr>, [AInt 42], []),
      py_print ''called''
        (snd (snd (check_tor_connection tor_on_9050 (init [9150, 9050] 10) io0)))) \<and>
   tor_request same_ip_world report_call [AInt 42] [] io0 =
     (Inl (Exception ''Tor connection failed. Make sure Tor is running and configured correctly.''),
      snd (snd (check_tor_connection same_ip_world (init [9150, 9050] 10) io0)))"
proof -
  let ?good = "check_tor_connection tor_on_9050 (init [9150, 9050] 10) io0"
  let ?bad = "check_tor_connection same_ip_world (init [9150, 9050] 10) io0"
  have "?good = (Inr True, (init [9150, 9050] 10)\<lparr>proxies := Some (create_proxies 9050)\<rparr>,
      snd (snd ?good))"
    by (simp add: check_tor_connection_def check_ports.simps get_tor_ip_eq direct_eval
        world_eval tor_on_9050_def)
  with tor_request_wrapper [of tor_on_9050 io0
      "(init [9150, 9050] 10)\<lparr>proxies := Some (create_proxies 9050)\<rparr>" "snd (snd ?good)"
      report_call "[AInt 42]" "[]" report_call]
  have good: "tor_request tor_on_9050 report_call [AInt 42] [] io0 =
      report_call ((init [9150, 9050] 10)\<lparr>proxies := Some (create_proxies 9050)\<rparr>)
        [AInt 42] [] (snd (snd ?good))"
    by blast
  have "?bad = (Inr False, fst (snd ?bad), snd (snd ?bad))"
    by (simp add: check_tor_connection_def check_ports.simps get_tor_ip_eq direct_eval
        world_eval same_ip_world_def)
  with tor_request_wrapper [of same_ip_world io0 "fst (snd ?bad)" "snd (snd ?bad)"
      report_call "[AInt 42]" "[]" report_call]
  have "tor_request same_ip_world report_call [AInt 42] [] io0 =
     (Inl (Exception ''Tor connection failed. Make sure Tor is running and configured correctly.''),
      snd (snd ?bad))"
    by blast
  with good show ?thesis by (simp add: report_call_def)
qed

section \<open>What the operations leave unchanged\<close>

text \<open>
  Claim C9. For every client and every sequence of operations after construction, the
  configuration fields (candidate port list, timeout, IP-check endpoint URL) are never
  modified, and the \<^verbatim>\<open>proxies\<close> field is changed only by the verification operation,
  never by the HTTP verb operations.

  After any sequence \<open>ops\<close> of the five public operations, in any world and whatever
  they return or raise, the three configuration fields are what they were. A sequence
  without \<^verbatim>\<open>check_tor_connection()\<close> leaves the \<^verbatim>\<open>proxies\<close> field as it was, and each single
  verb operation leaves the whole client as it was.
\<close>

theorem configuration_never_modified:
  assumes "run w ops (c, s) = (c', s')"
  shows "tor_ports c' = tor_ports c \<and> timeout c' = timeout c \<and>
         ip_check_url c' = ip_check_url c \<and>
         (CheckTorConnection \<notin> set ops \<longrightarrow> proxies c' = proxies c) \<and>
         (\<forall>op. op \<noteq> CheckTorConnection \<longrightarrow> fst (step w (c, s) op) = c)"
proof -
  have "CheckTorConnection \<notin> set ops \<longrightarrow> proxies c' = proxies c"
    using run_verbs_unchanged [of ops w c s] assms by auto
  with run_config [OF assms] show ?thesis
    by (simp add: step_verb_unchanged)
qed

theorem configuration_never_modified_witness:
  "tor_ports (fst (run tor_on_9050
      [Get [AStr ''https://example.com''] [], CheckTorConnection,
       Post [AStr ''https://example.com/api''] [(''json'', AOther ())]]
      (init [9150, 9050] 10, io0))) = [9150, 9050] \<and>
   timeout (fst (run tor_on_9050
      [Get [AStr ''https://example.com''] [], CheckTorConnection,
       Post [AStr ''https://example.com/api''] [(''json'', AOther ())]]
      (init [9150, 9050] 10, io0))) = 10 \<and>
   ip_check_url (fst (run tor_on_9050
      [Get [AStr ''https://example.com''] [], CheckTorConnection,
       Post [AStr ''https://example.com/api''] [(''json'', AOther ())]]
      (init [9150, 9050] 10, io0))) = ''https://api.ipify.org?format=json'' \<and>
   proxies (fst (run tor_on_9050
      [Put [AStr ''https://example.com''] [], Delete [AStr ''https://example.com''] []]
      ((init [9150, 9050] 10)\<lparr>proxies := Some (create_proxies 9050)\<rparr>, io0))) =
     Some (create_proxies 9050)"
proof -
  let ?ops = "[Get [AStr ''https://example.com''] [], CheckTorConnection,
       Post [AStr ''https://example.com/api''] [(''json'', AOther ())]]"
  let ?st = "run tor_on_9050 ?ops (init [9150, 9050] 10, io0)"
  let ?verbs = "[Put [AStr ''https://example.com''] [], Delete [AStr ''https://example.com''] []]"
  let ?c = "(init [9150, 9050] 10)\<lparr>proxies := Some (create_proxies 9050)\<rparr>"
  let ?sv = "run tor_on_9050 ?verbs (?c, io0)"
  have 1: "run tor_on_9050 ?ops (init [9150, 9050] 10, io0) = (fst ?st, snd ?st)"
    and 2: "run tor_on_9050 ?verbs (?c, io0) = (fst ?sv, snd ?sv)"
    by simp_all
  have verbs: "CheckTorConnection \<notin> set ?verbs"
    by simp
  from configuration_never_modified [OF 1]
  have "tor_ports (fst ?st) = [9150, 9050]" "timeout (fst ?st) = 10"
    "ip_check_url (fst ?st) = ''https://api.ipify.org?format=json''"
    by (simp_all add: init_def)
  moreover from configuration_never_modified [OF 2] verbs
  have "proxies (fst ?sv) = Some (create_proxies 9050)"
    by simp
  ultimately show ?thesis by simp
qed

section \<open>Exceptions of a probe\<close>

text \<open>
  Claim C10. During verification, only transport-level errors
  (\<^verbatim>\<open>requests.RequestException\<close>, \<^verbatim>\<open>socket.error\<close>) on a candidate port are caught and
  treated as that port failing; if the IP-check endpoint's response parses but lacks the
  \<^verbatim>\<open>ip\<close> member, the lookup error leaves \<^verbatim>\<open>check_tor_connection()\<close> uncaught instead
  of being recovered by moving to the next candidate port.

  The ports \<open>pre\<close> before \<open>port\<close> were probed and passed over, and \<open>h\<close> are the calls
  made when \<open>port\<close> is probed. If the probe raises one of the two caught exceptions, the
  call is the loop run on the remaining ports. If it raises any other exception, the
  call raises it, and the probe of \<open>port\<close> is the last request made. If the response
  decodes to an object without the member \<^verbatim>\<open>ip\<close>, that exception is \<^verbatim>\<open>KeyError('ip')\<close>.
\<close>

theorem check_tor_connection_lookup_error_propagates:
  assumes ports: "tor_ports c = pre @ port # rest"
    and direct: "fst (get_direct_ip w c s) = Inr direct_ip"
    and earlier: "all_rejected w c direct_ip (calls s @ [direct_call c]) pre"
    and h: "h = calls s @ direct_call c # map (probe_call c) pre"
  shows "(ip_answer w h (probe_call c port) = Inl e \<and> caught e \<longrightarrow>
            (\<exists>out. check_tor_connection w c s =
               check_ports w direct_ip rest (c\<lparr>proxies := Some (create_proxies port)\<rparr>)
                 (s\<lparr>calls := h @ [probe_call c port], stdout := stdout s @ out\<rparr>))) \<and>
         (ip_answer w h (probe_call c port) = Inl e \<and> \<not> caught e \<longrightarrow>
            (\<exists>out. check_tor_connection w c s =
               (Inl e, c\<lparr>proxies := Some (create_proxies port)\<rparr>,
                s\<lparr>calls := h @ [probe_call c port], stdout := stdout s @ out\<rparr>))) \<and>
         (requests w h (probe_call c port) = Inr r \<and> json w r = Inr obj \<and> map_of obj ''ip'' = None \<longrightarrow>
            (\<exists>out. check_tor_connection w c s =
               (Inl (KeyError ''ip''), c\<lparr>proxies := Some (create_proxies port)\<rparr>,
                s\<lparr>calls := h @ [probe_call c port], stdout := stdout s @ out\<rparr>)))"
proof (intro conjI impI)
  assume a: "ip_answer w h (probe_call c port) = Inl e \<and> caught e"
  have ports': "tor_ports c = (pre @ [port]) @ rest"
    using ports by simp
  have "all_rejected w c direct_ip (calls s @ [direct_call c]) (pre @ [port])"
    using earlier a h by (simp add: all_rejected_append)
  from check_tor_connection_prefix [OF ports' direct this]
  show "\<exists>out. check_tor_connection w c s =
               check_ports w direct_ip rest (c\<lparr>proxies := Some (create_proxies port)\<rparr>)
                 (s\<lparr>calls := h @ [probe_call c port], stdout := stdout s @ out\<rparr>)"
    by (simp add: foldl_proxies_override h)
next
  assume a: "ip_answer w h (probe_call c port) = Inl e \<and> \<not> caught e"
  then have "ip_answer w (calls s @ direct_call c # map (probe_call c) pre) (probe_call c port) = Inl e"
    and "\<not> caught e" by (simp_all add: h)
  from check_tor_connection_raised [OF ports direct earlier this]
  show "\<exists>out. check_tor_connection w c s =
               (Inl e, c\<lparr>proxies := Some (create_proxies port)\<rparr>,
                s\<lparr>calls := h @ [probe_call c port], stdout := stdout s @ out\<rparr>)"
    by (simp add: h)
next
  assume a: "requests w h (probe_call c port) = Inr r \<and> json w r = Inr obj \<and> map_of obj ''ip'' = None"
  then have "ip_answer w (calls s @ direct_call c # map (probe_call c) pre) (probe_call c port)
      = Inl (KeyError ''ip'')"
    using ip_answer_no_member [of w h "probe_call c port" r obj] by (simp add: h)
  moreover have "\<not> caught (KeyError ''ip'')" by simp
  ultimately show "\<exists>out. check_tor_connection w c s =
               (Inl (KeyError ''ip''), c\<lparr>proxies := Some (create_proxies port)\<rparr>,
                s\<lparr>calls := h @ [probe_call c port], stdout := stdout s @ out\<rparr>)"
    using check_tor_connection_raised [OF ports direct earlier] by (simp add: h)
qed

theorem check_tor_connection_lookup_error_propagates_witness:
  "fst (check_tor_connection no_ip_member_on_9150 (init [9150, 9050] 10) io0) = Inl (KeyError ''ip'') \<and>
   calls (snd (snd (check_tor_connection no_ip_member_on_9150 (init [9150, 9050] 10) io0))) =
     [direct_call (init [9150, 9050] 10), probe_call (init [9150, 9050] 10) 9150] \<and>
   fst (check_tor_connection tor_on_9050 (init [9150] 10) io0) = Inr False"
proof -
  let ?w = "no_ip_member_on_9150"
  let ?c = "init [9150, 9050] 10"
  let ?d = "PyStr ''203.0.113.7''"
  let ?obj = "[(''error'', PyStr ''rate limited'')]"
  have ports: "tor_ports ?c = [] @ 9150 # [9050]"
    by (simp add: init_def)
  have direct: "fst (get_direct_ip ?w ?c io0) = Inr ?d"
    by (simp add: direct_eval world_eval no_ip_member_on_9150_def)
  have earlier: "all_rejected ?w ?c ?d (calls io0 @ [direct_call ?c]) []"
    by simp
  have h: "[direct_call ?c] = calls io0 @ direct_call ?c # map (probe_call ?c) []"
    by (simp add: io0_def)
  have response: "requests ?w [direct_call ?c] (probe_call ?c 9150) = Inr ?obj"
    and body: "json ?w ?obj = Inr ?obj" and member: "map_of ?obj ''ip'' = None"
    and answer: "ip_answer ?w [direct_call ?c] (probe_call ?c 9150) = Inl (KeyError ''ip'')"
    by (simp_all add: world_eval no_ip_member_on_9150_def)
  have uncaught: "\<not> caught (KeyError ''ip'')"
    by simp
  from check_tor_connection_lookup_error_propagates
    [OF ports direct earlier h, of "KeyError ''ip''" ?obj ?obj]
    response body member answer uncaught
  have lookup: "\<exists>out. check_tor_connection ?w ?c io0 =
      (Inl (KeyError ''ip''), ?c\<lparr>proxies := Some (create_proxies 9150)\<rparr>,
       io0\<lparr>calls := [direct_call ?c] @ [probe_call ?c 9150], stdout := stdout io0 @ out\<rparr>)"
    by blast
  let ?w1 = "tor_on_9050"
  let ?c1 = "init [9150] 10"
  have ports1: "tor_ports ?c1 = [] @ 9150 # []"
    by (simp add: init_def)
  have direct1: "fst (get_direct_ip ?w1 ?c1 io0) = Inr ?d"
    by (simp add: direct_eval world_eval tor_on_9050_def)
  have earlier1: "all_rejected ?w1 ?c1 ?d (calls io0 @ [direct_call ?c1]) []"
    by simp
  have h1: "[direct_call ?c1] = calls io0 @ direct_call ?c1 # map (probe_call ?c1) []"
    by (simp add: io0_def)
  have answer1: "ip_answer ?w1 [direct_call ?c1] (probe_call ?c1 9150) =
      Inl (RequestException ''connection refused'')"
    by (simp add: world_eval tor_on_9050_def)
  have caught1: "caught (RequestException ''connection refused'')"
    by simp
  from check_tor_connection_lookup_error_propagates
    [OF ports1 direct1 earlier1 h1, of "RequestException ''connection refused''"]
    answer1 caught1
  have "\<exists>out. check_tor_connection ?w1 ?c1 io0 =
      check_ports ?w1 ?d [] (?c1\<lparr>proxies := Some (create_proxies 9150)\<rparr>)
        (io0\<lparr>calls := [direct_call ?c1] @ [probe_call ?c1 9150], stdout := stdout io0 @ out\<rparr>)"
    by blast
  then have "fst (check_tor_connection ?w1 ?c1 io0) = Inr False"
    by (auto simp add: check_ports.simps)
  with lookup show ?thesis by auto
qed

end
